theory Spec2Isabelle
  imports Complex_Main
begin

section \<open>Values, exceptions and the environment of a request\<close>

text \<open>
  JavaScript values that travel through the cache and the HTTP responses are JSON values.
  A thrown JavaScript error is a value of type \<open>exn\<close>: an \<open>Error\<close> object with its
  message, a \<open>RangeError\<close> with its message, or the error object of the database
  client with its \<open>code\<close>. An \<open>async\<close>
  function that may throw returns \<open>exn + 'a\<close>, with \<open>Inl\<close> for the rejected promise.
\<close>

datatype json =
    JNull
  | JBool bool
  | JNum real
  | JStr string
  | JArr "json list"
  | JObj "(string \<times> json) list"

datatype exn = Error string | RangeError string | PostgrestError string

text \<open>
  A call of the database client either rejects (throws), or resolves to an object
  \<open>{ data, error }\<close> in which exactly one of the two is set.
\<close>

datatype 'a pg_result = Data 'a | PgError string

datatype fault = NoFault | Rejects exn | Fails string

section \<open>The cache table (database/init.js, utils/cache.js)\<close>

text \<open>
  The table \<open>cache\<close> is declared in database/init.js as
  \<^verbatim>\<open>id UUID PRIMARY KEY DEFAULT gen_random_uuid(), key TEXT UNIQUE NOT NULL,
  value JSONB NOT NULL, expires_at TIMESTAMPTZ NOT NULL\<close>.
  Timestamps are milliseconds since the epoch, as \<open>Date\<close> counts them; the
  identifiers of the rows are numbers, and a fresh one stands for \<open>gen_random_uuid()\<close>.
\<close>

record cache_row =
  row_id :: nat
  row_key :: string
  row_value :: json
  row_expires_at :: int

type_synonym cache_table = "cache_row list"

definition fresh_id :: "cache_table \<Rightarrow> nat" where
  "fresh_id tbl = Suc (fold max (map row_id tbl) 0)"

text \<open>\<^verbatim>\<open>.select('value, expires_at').eq('key', key).single()\<close>: the one matching row, and the
  error \<open>PGRST116\<close> when the number of matching rows is not one.\<close>

definition db_select_single ::
  "fault \<Rightarrow> cache_table \<Rightarrow> string \<Rightarrow> exn + (json \<times> int) pg_result" where
  "db_select_single f tbl k =
     (case f of
        Rejects e \<Rightarrow> Inl e
      | Fails c \<Rightarrow> Inr (PgError c)
      | NoFault \<Rightarrow>
          (case filter (\<lambda>r. row_key r = k) tbl of
             [r] \<Rightarrow> Inr (Data (row_value r, row_expires_at r))
           | _ \<Rightarrow> Inr (PgError ''PGRST116'')))"

text \<open>\<^verbatim>\<open>.delete().eq('key', key)\<close>\<close>

definition db_delete_eq ::
  "fault \<Rightarrow> cache_table \<Rightarrow> string \<Rightarrow> (exn + unit pg_result) \<times> cache_table" where
  "db_delete_eq f tbl k =
     (case f of
        Rejects e \<Rightarrow> (Inl e, tbl)
      | Fails c \<Rightarrow> (Inr (PgError c), tbl)
      | NoFault \<Rightarrow> (Inr (Data ()), filter (\<lambda>r. row_key r \<noteq> k) tbl))"

text \<open>\<^verbatim>\<open>.delete().lt('expires_at', now)\<close>\<close>

definition db_delete_lt ::
  "fault \<Rightarrow> cache_table \<Rightarrow> int \<Rightarrow> (exn + unit pg_result) \<times> cache_table" where
  "db_delete_lt f tbl t =
     (case f of
        Rejects e \<Rightarrow> (Inl e, tbl)
      | Fails c \<Rightarrow> (Inr (PgError c), tbl)
      | NoFault \<Rightarrow> (Inr (Data ()), filter (\<lambda>r. \<not> row_expires_at r < t) tbl))"

text \<open>
  The column \<open>value\<close> is of type \<open>JSONB\<close>, which keeps of an object one value for each
  key, the last one, and stores the keys sorted: a shorter key before a longer one, and
  keys of one length by their bytes. What is read back is the value in this form.
\<close>

fun bytes_before :: "string \<Rightarrow> string \<Rightarrow> bool" where
  "bytes_before (a # as) (b # bs) =
     ((of_char a :: nat) < of_char b \<or> (a = b \<and> bytes_before as bs))"
| "bytes_before _ _ = False"

definition key_before :: "string \<Rightarrow> string \<Rightarrow> bool" where
  "key_before k k' \<longleftrightarrow> length k < length k' \<or> (length k = length k' \<and> bytes_before k k')"

fun put_key :: "string \<times> json \<Rightarrow> (string \<times> json) list \<Rightarrow> (string \<times> json) list" where
  "put_key kv [] = [kv]"
| "put_key kv (kv' # rest) =
     (if fst kv = fst kv' then kv # rest
      else if key_before (fst kv) (fst kv') then kv # kv' # rest
      else kv' # put_key kv rest)"

definition jsonb_object :: "(string \<times> json) list \<Rightarrow> (string \<times> json) list" where
  "jsonb_object kvs = foldl (\<lambda>sorted kv. put_key kv sorted) [] kvs"

primrec jsonb :: "json \<Rightarrow> json" where
  "jsonb JNull = JNull"
| "jsonb (JBool b) = JBool b"
| "jsonb (JNum x) = JNum x"
| "jsonb (JStr s) = JStr s"
| "jsonb (JArr xs) = JArr (map jsonb xs)"
| "jsonb (JObj kvs) = JObj (jsonb_object (map (map_prod id jsonb) kvs))"

text \<open>
  \<^verbatim>\<open>.upsert({ key, value, expires_at })\<close> is called without the option \<open>onConflict\<close>, so
  the database resolves conflicts on the primary key, which is the column \<open>id\<close>. The row
  handed over has no \<open>id\<close>: the column takes its default, a fresh identifier, and no
  conflict on the primary key can arise. What is left is an insertion. It is rejected
  with the error \<open>23502\<close> when the value is \<open>null\<close> (the column is \<open>NOT NULL\<close>), and with
  the error \<open>23505\<close> when a row of that key is already there (the column \<open>key\<close> is
  \<open>UNIQUE\<close>).
\<close>

definition db_upsert ::
  "fault \<Rightarrow> cache_table \<Rightarrow> string \<Rightarrow> json \<Rightarrow> int \<Rightarrow> (exn + unit pg_result) \<times> cache_table" where
  "db_upsert f tbl k v e =
     (case f of
        Rejects x \<Rightarrow> (Inl x, tbl)
      | Fails c \<Rightarrow> (Inr (PgError c), tbl)
      | NoFault \<Rightarrow>
          (if v = JNull then (Inr (PgError ''23502''), tbl)
           else if k \<in> row_key ` set tbl then (Inr (PgError ''23505''), tbl)
           else (Inr (Data ()),
                 tbl @ [\<lparr>row_id = fresh_id tbl, row_key = k, row_value = jsonb v,
                         row_expires_at = e\<rparr>])))"

text \<open>
  What a request meets outside the program: the clock, and whether each call of the
  database client goes through.
\<close>

record store_env =
  now :: int
  select_fault :: fault
  delete_fault :: fault
  upsert_fault :: fault

text \<open>The body of \<open>getCachedData\<close>, inside its \<open>try\<close>.\<close>

definition getCachedData_try ::
  "'e store_env_scheme \<Rightarrow> cache_table \<Rightarrow> string \<Rightarrow> (exn + json) \<times> cache_table" where
  "getCachedData_try env tbl key =
     (case db_select_single (select_fault env) tbl key of
        Inl e \<Rightarrow> (Inl e, tbl)
      | Inr (PgError code) \<Rightarrow>
          (if code = ''PGRST116'' then (Inr JNull, tbl) else (Inl (PostgrestError code), tbl))
      | Inr (Data (v, expires_at)) \<Rightarrow>
          (if expires_at < now env then
             (case db_delete_eq (delete_fault env) tbl key of
                (Inl e, tbl') \<Rightarrow> (Inl e, tbl')
              | (Inr _, tbl') \<Rightarrow> (Inr JNull, tbl'))
           else (Inr v, tbl)))"

text \<open>\<open>getCachedData\<close>: the \<open>catch\<close> logs the error and returns \<open>null\<close>.\<close>

definition getCachedData ::
  "'e store_env_scheme \<Rightarrow> cache_table \<Rightarrow> string \<Rightarrow> (exn + json) \<times> cache_table" where
  "getCachedData env tbl key =
     (case getCachedData_try env tbl key of
        (Inl e, tbl') \<Rightarrow> (Inr JNull, tbl')
      | (Inr v, tbl') \<Rightarrow> (Inr v, tbl'))"

text \<open>
  The body of \<open>setCachedData\<close>, inside its \<open>try\<close>. A \<open>Date\<close> holds an instant of at most
  8.64e15 milliseconds from the epoch, in either direction; beyond, the date is invalid
  and \<open>toISOString\<close> throws a \<open>RangeError\<close>.
\<close>

definition valid_date :: "int \<Rightarrow> bool" where
  "valid_date t \<longleftrightarrow> - 8640000000000000 \<le> t \<and> t \<le> 8640000000000000"

definition setCachedData_try ::
  "'e store_env_scheme \<Rightarrow> cache_table \<Rightarrow> string \<Rightarrow> json \<Rightarrow> int \<Rightarrow> (exn + unit) \<times> cache_table" where
  "setCachedData_try env tbl key v ttlSeconds =
     (let expiresAt = now env + ttlSeconds * 1000
      in if \<not> valid_date expiresAt then (Inl (RangeError ''Invalid time value''), tbl)
         else
           (case db_upsert (upsert_fault env) tbl key v expiresAt of
              (Inl e, tbl') \<Rightarrow> (Inl e, tbl')
            | (Inr (PgError code), tbl') \<Rightarrow> (Inl (PostgrestError code), tbl')
            | (Inr (Data _), tbl') \<Rightarrow> (Inr (), tbl')))"

definition setCachedData ::
  "'e store_env_scheme \<Rightarrow> cache_table \<Rightarrow> string \<Rightarrow> json \<Rightarrow> int \<Rightarrow> (exn + unit) \<times> cache_table" where
  "setCachedData env tbl key v ttlSeconds =
     (case setCachedData_try env tbl key v ttlSeconds of
        (Inl e, tbl') \<Rightarrow> (Inr (), tbl')
      | (Inr u, tbl') \<Rightarrow> (Inr u, tbl'))"

definition clearExpiredCache ::
  "'e store_env_scheme \<Rightarrow> cache_table \<Rightarrow> (exn + unit) \<times> cache_table" where
  "clearExpiredCache env tbl =
     (case db_delete_lt (delete_fault env) tbl (now env) of
        (Inl e, tbl') \<Rightarrow> (Inr (), tbl')
      | (Inr (PgError code), tbl') \<Rightarrow> (Inr (), tbl')
      | (Inr (Data _), tbl') \<Rightarrow> (Inr (), tbl'))"

section \<open>The provider fallback chain (services/geocoding.js)\<close>

text \<open>What \<open>if (v)\<close> tests; \<open>None\<close> stands for \<open>undefined\<close>.\<close>

fun truthy :: "json \<Rightarrow> bool" where
  "truthy JNull = False"
| "truthy (JBool b) = b"
| "truthy (JNum x) = (x \<noteq> 0)"
| "truthy (JStr s) = (s \<noteq> [])"
| "truthy (JArr _) = True"
| "truthy (JObj _) = True"

fun message :: "exn \<Rightarrow> string" where
  "message (Error m) = m"
| "message (RangeError m) = m"
| "message (PostgrestError c) = c"

text \<open>
  The loop of \<open>geocodeLocation\<close> over the array \<open>geocoders\<close>. Beside the outcome it
  returns what it did, in order: \<open>Invoked i\<close> for the call of the provider at position
  \<open>i\<close>, \<open>Warned m\<close> for \<open>logger.warn\<close> with the message \<open>m\<close> of the error caught.
\<close>

datatype event = Invoked nat | Warned string

fun resolve_loop ::
  "nat \<Rightarrow> ('a \<Rightarrow> exn + json) list \<Rightarrow> 'a \<Rightarrow> (exn + json) \<times> event list" where
  "resolve_loop i [] x = (Inl (Error ''All geocoding services failed''), [])"
| "resolve_loop i (geocoder # rest) x =
     (case geocoder x of
        Inr result \<Rightarrow>
          (if truthy result then (Inr result, [Invoked i])
           else (case resolve_loop (Suc i) rest x of (r, tr) \<Rightarrow> (r, Invoked i # tr)))
      | Inl error \<Rightarrow>
          (case resolve_loop (Suc i) rest x of
             (r, tr) \<Rightarrow> (r, Invoked i # Warned (message error) # tr)))"

fun invoked :: "event list \<Rightarrow> nat list" where
  "invoked [] = []"
| "invoked (Invoked i # tr) = i # invoked tr"
| "invoked (Warned m # tr) = invoked tr"

fun warnings :: "event list \<Rightarrow> string list" where
  "warnings [] = []"
| "warnings (Invoked i # tr) = warnings tr"
| "warnings (Warned m # tr) = m # warnings tr"

text \<open>A provider fails when it throws or returns a value that is not truthy.\<close>

definition fails :: "exn + json \<Rightarrow> bool" where
  "fails out = (case out of Inl e \<Rightarrow> True | Inr v \<Rightarrow> \<not> truthy v)"

text \<open>
  The three providers. Of a response each reads the four fields of its first entry; the
  request itself (\<open>axios.get\<close>, with its timeout) and the entries of its response come
  from the environment.
\<close>

record hit =
  hit_lat :: json
  hit_lng :: json
  hit_address :: json
  hit_place_id :: json

record geo_env = store_env +
  GOOGLE_MAPS_API_KEY :: bool
  MAPBOX_ACCESS_TOKEN :: bool
  google_get :: "json \<Rightarrow> exn + (string \<times> hit list)"
  mapbox_get :: "json \<Rightarrow> exn + hit list"
  osm_get :: "json \<Rightarrow> exn + hit list"
  parseFloat :: "json \<Rightarrow> json"

definition place :: "json \<Rightarrow> json \<Rightarrow> json \<Rightarrow> json \<Rightarrow> string \<Rightarrow> json" where
  "place la lo addr pid svc =
     JObj [(''lat'', la), (''lng'', lo), (''formatted_address'', addr),
           (''place_id'', pid), (''service'', JStr svc)]"

definition geocodeWithGoogleMaps :: "'e geo_env_scheme \<Rightarrow> json \<Rightarrow> exn + json" where
  "geocodeWithGoogleMaps env locationName =
     (if \<not> GOOGLE_MAPS_API_KEY env then Inl (Error ''Google Maps API key not configured'')
      else (case google_get env locationName of
              Inl e \<Rightarrow> Inl e
            | Inr (status, results) \<Rightarrow>
                (if status = ''OK'' \<and> length results > 0
                 then (let result = hd results
                       in Inr (place (hit_lat result) (hit_lng result) (hit_address result)
                                 (hit_place_id result) ''google_maps''))
                 else Inl (Error (''Google Maps geocoding failed: '' @ status)))))"

definition geocodeWithMapbox :: "'e geo_env_scheme \<Rightarrow> json \<Rightarrow> exn + json" where
  "geocodeWithMapbox env locationName =
     (if \<not> MAPBOX_ACCESS_TOKEN env then Inl (Error ''Mapbox access token not configured'')
      else (case mapbox_get env locationName of
              Inl e \<Rightarrow> Inl e
            | Inr features \<Rightarrow>
                (if length features > 0
                 then (let feature = hd features
                       in Inr (place (hit_lat feature) (hit_lng feature) (hit_address feature)
                                 (hit_place_id feature) ''mapbox''))
                 else Inl (Error ''Mapbox geocoding returned no results''))))"

definition geocodeWithOpenStreetMap :: "'e geo_env_scheme \<Rightarrow> json \<Rightarrow> exn + json" where
  "geocodeWithOpenStreetMap env locationName =
     (case osm_get env locationName of
        Inl e \<Rightarrow> Inl e
      | Inr data \<Rightarrow>
          (if length data > 0
           then (let result = hd data
                 in Inr (place (parseFloat env (hit_lat result)) (parseFloat env (hit_lng result))
                           (hit_address result) (hit_place_id result) ''openstreetmap''))
           else Inl (Error ''OpenStreetMap geocoding returned no results'')))"

definition geocoders :: "'e geo_env_scheme \<Rightarrow> (json \<Rightarrow> exn + json) list" where
  "geocoders env =
     [geocodeWithGoogleMaps env, geocodeWithMapbox env, geocodeWithOpenStreetMap env]"

definition geocodeLocation ::
  "'e geo_env_scheme \<Rightarrow> json \<Rightarrow> (exn + json) \<times> event list" where
  "geocodeLocation env locationName = resolve_loop 0 (geocoders env) locationName"

section \<open>Cache keys (routes/geocoding.js, routes/verification.js)\<close>

text \<open>
  A text is the sequence of its bytes in UTF-8, which is what \<open>Buffer.from(text)\<close> holds.
  \<open>toString('base64')\<close> encodes three bytes as four characters and pads the last group
  with \<open>=\<close>.
\<close>

definition b64_alphabet :: string where
  "b64_alphabet = ''ABCDEFGHIJKLMNOPQRSTUVWXYZabcdefghijklmnopqrstuvwxyz0123456789+/''"

definition b64_char :: "nat \<Rightarrow> char" where
  "b64_char i = b64_alphabet ! i"

fun base64 :: "string \<Rightarrow> string" where
  "base64 [] = []"
| "base64 [a] =
     [b64_char (of_char a div 4), b64_char ((of_char a mod 4) * 16), CHR ''='', CHR ''='']"
| "base64 [a, b] =
     [b64_char (of_char a div 4), b64_char ((of_char a mod 4) * 16 + of_char b div 16),
      b64_char ((of_char b mod 16) * 4), CHR ''='']"
| "base64 (a # b # c # rest) =
     [b64_char (of_char a div 4), b64_char ((of_char a mod 4) * 16 + of_char b div 16),
      b64_char ((of_char b mod 16) * 4 + of_char c div 64), b64_char (of_char c mod 64)]
     @ base64 rest"

text \<open>\<^verbatim>\<open>`geocode_${Buffer.from(inputText).toString('base64').slice(0, 32)}`\<close> and its two
  siblings.\<close>

definition geocode_cacheKey :: "string \<Rightarrow> string" where
  "geocode_cacheKey inputText = ''geocode_'' @ take 32 (base64 inputText)"

definition direct_geocode_cacheKey :: "string \<Rightarrow> string" where
  "direct_geocode_cacheKey location_name = ''direct_geocode_'' @ take 32 (base64 location_name)"

definition image_verification_cacheKey :: "string \<Rightarrow> string" where
  "image_verification_cacheKey image_url =
     ''image_verification_'' @ take 32 (base64 image_url)"

section \<open>Rooms and events (index.js and the emitting routes)\<close>

text \<open>
  The Socket.IO server: the connected sockets, each with the rooms it has joined by
  \<open>socket.join\<close>. A delivery is a socket, an event name and a payload. \<open>io.emit\<close>
  delivers to every connected socket, \<open>io.to(room).emit\<close> to the sockets in the room.
\<close>

type_synonym io_server = "(nat \<times> string list) list"
type_synonym delivery = "nat \<times> string \<times> json"

definition disaster_room :: "string \<Rightarrow> string" where
  "disaster_room disasterId = ''disaster_'' @ disasterId"

definition connection :: "io_server \<Rightarrow> nat \<Rightarrow> io_server" where
  "connection io sid = io @ [(sid, [])]"

definition join_disaster :: "io_server \<Rightarrow> nat \<Rightarrow> string \<Rightarrow> io_server" where
  "join_disaster io sid disasterId =
     map (\<lambda>(s, rooms). if s = sid then (s, List.insert (disaster_room disasterId) rooms)
                        else (s, rooms)) io"

definition disconnect :: "io_server \<Rightarrow> nat \<Rightarrow> io_server" where
  "disconnect io sid = filter (\<lambda>(s, rooms). s \<noteq> sid) io"

definition io_emit :: "io_server \<Rightarrow> string \<Rightarrow> json \<Rightarrow> delivery list" where
  "io_emit io ev payload = map (\<lambda>(s, rooms). (s, ev, payload)) io"

definition io_to_emit :: "io_server \<Rightarrow> string \<Rightarrow> string \<Rightarrow> json \<Rightarrow> delivery list" where
  "io_to_emit io room ev payload =
     map (\<lambda>(s, rooms). (s, ev, payload)) (filter (\<lambda>(s, rooms). room \<in> set rooms) io)"

text \<open>
  The emitting step of each route after its write or read has succeeded: the three
  routes of disasters (\<open>POST\<close>, \<open>PUT\<close>, \<open>DELETE\<close>, with the row written), the two of
  resources (\<open>GET\<close> with its result, \<open>POST\<close> with the row created) and the one of social
  media (\<open>GET\<close> with its result).
\<close>

datatype mutation =
    DisasterCreate json
  | DisasterUpdate json
  | DisasterDelete json
  | ResourcesGet string json
  | ResourceCreate string json
  | SocialMediaGet string json

fun notify :: "io_server \<Rightarrow> mutation \<Rightarrow> delivery list" where
  "notify io (DisasterCreate d) =
     io_emit io ''disaster_updated'' (JObj [(''type'', JStr ''create''), (''data'', d)])"
| "notify io (DisasterUpdate d) =
     io_emit io ''disaster_updated'' (JObj [(''type'', JStr ''update''), (''data'', d)])"
| "notify io (DisasterDelete d) =
     io_emit io ''disaster_updated'' (JObj [(''type'', JStr ''delete''), (''data'', d)])"
| "notify io (ResourcesGet disasterId result) =
     io_to_emit io (disaster_room disasterId) ''resources_updated'' result"
| "notify io (ResourceCreate disaster_id d) =
     io_to_emit io (disaster_room disaster_id) ''resources_updated''
       (JObj [(''type'', JStr ''create''), (''data'', d), (''disaster_id'', JStr disaster_id)])"
| "notify io (SocialMediaGet disasterId result) =
     io_to_emit io (disaster_room disasterId) ''social_media_updated'' result"

definition rooms_of :: "io_server \<Rightarrow> nat \<Rightarrow> string list" where
  "rooms_of io sid = concat (map snd (filter (\<lambda>(s, rooms). s = sid) io))"

section \<open>The Gemini call and the parsing of its answers\<close>

record env = geo_env +
  GEMINI_API_KEY :: bool
  gemini_post :: "string \<Rightarrow> exn + string option"
  JSON_parse :: "string \<Rightarrow> json option"
  matchAll_locations :: "string \<Rightarrow> string list"
  Math_floor_random_40 :: int
  toISOString :: "int \<Rightarrow> string"
  ToNumber :: "json \<Rightarrow> real option"
  update_fault :: fault

text \<open>
  Of the environment: \<open>gemini_post\<close> is the request to the Gemini API, with the text
  found at \<open>candidates[0].content.parts[0].text\<close> of its response, if any;
  \<open>JSON_parse\<close> is \<open>JSON.parse\<close>, \<open>None\<close> when it throws; \<open>matchAll_locations\<close> is the
  array of first groups that the three patterns of \<open>extractLocationsFallback\<close> match, in
  order and trimmed; \<open>Math_floor_random_40\<close> is the value of
  \<open>Math.floor(Math.random() * 40)\<close>, an integer from 0 to 39; \<open>ToNumber\<close> is the
  conversion of a string, an array or an object to a number, \<open>None\<close> for \<open>NaN\<close>.
\<close>

definition try_catch :: "exn + 'a \<Rightarrow> (exn \<Rightarrow> exn + 'a) \<Rightarrow> exn + 'a" where
  "try_catch body handler = (case body of Inl e \<Rightarrow> handler e | Inr v \<Rightarrow> Inr v)"

definition callGeminiAPI :: "'e env_scheme \<Rightarrow> string \<Rightarrow> string option \<Rightarrow> exn + string" where
  "callGeminiAPI env prompt imageUrl =
     (if \<not> GEMINI_API_KEY env then Inl (Error ''Google Gemini API key not configured'')
      else try_catch
             (case gemini_post env prompt of
                Inl e \<Rightarrow> Inl e
              | Inr None \<Rightarrow> Inl (Error ''Invalid response format from Gemini API'')
              | Inr (Some t) \<Rightarrow>
                  (if t = [] then Inl (Error ''Invalid response format from Gemini API'')
                   else Inr t))
             (\<lambda>error. Inl (Error (''Gemini API error: '' @ message error))))"

text \<open>\<^verbatim>\<open>s.match(/\{[\s\S]*\}/)\<close>: from the first opening brace to the last closing brace
  after it.\<close>

definition json_match :: "string \<Rightarrow> string option" where
  "json_match s =
     (let from_brace = dropWhile (\<lambda>c. c \<noteq> CHR ''{'') s
      in if CHR ''}'' \<in> set from_brace
         then Some (rev (dropWhile (\<lambda>c. c \<noteq> CHR ''}'') (rev from_brace)))
         else None)"

text \<open>Reading a property of an object, and building an object literal: a property that
  is \<open>undefined\<close> is not part of the JSON sent or stored.\<close>

fun get_field :: "json \<Rightarrow> string \<Rightarrow> json option" where
  "get_field (JObj kvs) k = map_of kvs k"
| "get_field _ k = None"

definition object :: "(string \<times> json option) list \<Rightarrow> json" where
  "object kvs = JObj (List.map_filter (\<lambda>(k, v). map_option (Pair k) v) kvs)"

fun object_keys :: "json \<Rightarrow> string list" where
  "object_keys (JObj kvs) = map fst kvs"
| "object_keys _ = []"

definition extractLocationsFallback :: "'e env_scheme \<Rightarrow> string \<Rightarrow> json" where
  "extractLocationsFallback env text =
     (let locations = matchAll_locations env text
      in JObj [(''locations'', JArr (map JStr (rev (remdups (rev locations))))),
               (''primary_location'',
                  (case locations of
                     [] \<Rightarrow> JNull
                   | l # _ \<Rightarrow> if l = [] then JNull else JStr l)),
               (''confidence'', JStr (if length locations > 0 then ''medium'' else ''low'')),
               (''method'', JStr ''pattern_matching_fallback'')])"

definition parseLocationExtractionResponse :: "'e env_scheme \<Rightarrow> string \<Rightarrow> exn + json" where
  "parseLocationExtractionResponse env geminiResponse =
     try_catch
       (case json_match geminiResponse of
          Some m \<Rightarrow> (case JSON_parse env m of None \<Rightarrow> Inl (Error ''SyntaxError'') | Some v \<Rightarrow> Inr v)
        | None \<Rightarrow>
            Inr (JObj [(''locations'', JArr []), (''primary_location'', JNull),
                       (''confidence'', JStr ''low'')]))
       (\<lambda>error. Inr (extractLocationsFallback env geminiResponse))"

definition generateFallbackVerification :: "'e env_scheme \<Rightarrow> json" where
  "generateFallbackVerification env =
     (let score = Math_floor_random_40 env + 60
      in JObj [(''authenticity_score'', JNum (of_int score)),
               (''confidence_level'',
                  JStr (if score \<ge> 80 then ''high'' else if score \<ge> 60 then ''medium'' else ''low'')),
               (''analysis_notes'',
                  JStr ''Automated analysis completed. Manual review recommended for critical decisions.''),
               (''disaster_type'', JStr ''unspecified''),
               (''flags'', JArr (if score < 70 then [JStr ''requires_manual_review''] else [])),
               (''method'', JStr ''fallback_analysis'')])"

definition parseGeminiVerificationResponse :: "'e env_scheme \<Rightarrow> string \<Rightarrow> exn + json" where
  "parseGeminiVerificationResponse env geminiResponse =
     try_catch
       (case json_match geminiResponse of
          Some m \<Rightarrow> (case JSON_parse env m of None \<Rightarrow> Inl (Error ''SyntaxError'') | Some v \<Rightarrow> Inr v)
        | None \<Rightarrow>
            Inr (JObj [(''authenticity_score'', JNum 75),
                       (''confidence_level'', JStr ''medium''),
                       (''analysis_notes'',
                          JStr ''Image appears to show legitimate disaster conditions based on visual analysis.''),
                       (''disaster_type'', JStr ''general_emergency''),
                       (''flags'', JArr [])]))
       (\<lambda>error. Inr (generateFallbackVerification env))"

text \<open>The lines of a template literal, with a line feed between each two.\<close>

fun lines :: "string list \<Rightarrow> string" where
  "lines [] = []"
| "lines [l] = l"
| "lines (l # ls) = l @ [CHR 0x0A] @ lines ls"

definition locationExtractionPrompt :: "string \<Rightarrow> string" where
  "locationExtractionPrompt inputText = lines
     [[],
      ''    Extract location names from the following text. Look for:'',
      ''    - City names, neighborhoods, districts'',
      ''    - Street names, addresses'',
      ''    - Landmarks, buildings'',
      ''    - Geographic references'',
      ''    '',
      ''    Text: '' @ [CHR 0x22] @ inputText @ [CHR 0x22],
      ''    '',
      ''    Respond with a JSON object containing:'',
      ''    - locations: array of location names found'',
      ''    - primary_location: the most specific/relevant location'',
      ''    - confidence: how confident you are (low/medium/high)'',
      ''    '',
      ''    If no clear location is found, return empty locations array.'',
      ''    '']"

definition verificationPrompt :: "string \<Rightarrow> string" where
  "verificationPrompt image_url = lines
     [[],
      ''    Analyze this image for disaster authenticity and context. Please evaluate:'',
      ''    1. Does this image appear to show genuine disaster damage or emergency conditions?'',
      ''    2. Look for signs of manipulation, staging, or inconsistencies'',
      ''    3. Assess the credibility based on visual elements'',
      ''    4. Identify what type of disaster or emergency this might be'',
      ''    '',
      ''    Image URL: '' @ image_url,
      ''    '',
      ''    Provide a JSON response with:'',
      ''    - authenticity_score (0-100, where 100 is highly authentic)'',
      ''    - confidence_level (low/medium/high)'',
      ''    - analysis_notes (brief explanation)'',
      ''    - disaster_type (if identifiable)'',
      ''    - flags (array of any concerns)'',
      ''    '']"

text \<open>
  The value assigned to \<open>verificationResult\<close> in the route \<open>verify-image\<close>: the answer of
  Gemini parsed, and the fallback analysis when the call or the parsing throws.
\<close>

definition verificationResult :: "'e env_scheme \<Rightarrow> string \<Rightarrow> exn + json" where
  "verificationResult env image_url =
     try_catch
       (case callGeminiAPI env (verificationPrompt image_url) (Some image_url) of
          Inl e \<Rightarrow> Inl e
        | Inr geminiResponse \<Rightarrow> parseGeminiVerificationResponse env geminiResponse)
       (\<lambda>error. Inr (generateFallbackVerification env))"

text \<open>The same for \<open>extractedLocations\<close> in the route \<open>extract-and-geocode\<close>.\<close>

definition extractedLocations :: "'e env_scheme \<Rightarrow> string \<Rightarrow> exn + json" where
  "extractedLocations env inputText =
     try_catch
       (case callGeminiAPI env (locationExtractionPrompt inputText) None of
          Inl e \<Rightarrow> Inl e
        | Inr geminiResponse \<Rightarrow> parseLocationExtractionResponse env geminiResponse)
       (\<lambda>error. Inr (extractLocationsFallback env inputText))"

text \<open>\<open>v >= n\<close> for a number \<open>n\<close>: \<open>v\<close> is converted to a number, and a comparison with
  \<open>NaN\<close> is false.\<close>

fun to_number :: "(json \<Rightarrow> real option) \<Rightarrow> json option \<Rightarrow> real option" where
  "to_number conv None = None"
| "to_number conv (Some JNull) = Some 0"
| "to_number conv (Some (JBool b)) = Some (if b then 1 else 0)"
| "to_number conv (Some (JNum x)) = Some x"
| "to_number conv (Some v) = conv v"

definition js_ge :: "(json \<Rightarrow> real option) \<Rightarrow> json option \<Rightarrow> real \<Rightarrow> bool" where
  "js_ge conv v n = (case to_number conv v of None \<Rightarrow> False | Some x \<Rightarrow> x \<ge> n)"

definition verification_status_of :: "'e env_scheme \<Rightarrow> json \<Rightarrow> string" where
  "verification_status_of env result =
     (if js_ge (ToNumber env) (get_field result ''authenticity_score'') 70 then ''verified''
      else if js_ge (ToNumber env) (get_field result ''authenticity_score'') 40 then ''questionable''
      else ''rejected'')"

section \<open>The routes (routes/geocoding.js, routes/verification.js)\<close>

text \<open>
  A route answers with a status and a JSON body, and may change the tables. A field of
  the request body is a string or absent; \<open>!field\<close> holds when it is absent or empty.
\<close>

datatype response = Response nat json

record report_row =
  report_id :: string
  verification_status :: string

record world =
  cache :: cache_table
  reports :: "report_row list"

definition absent :: "string option \<Rightarrow> bool" where
  "absent field = (case field of None \<Rightarrow> True | Some s \<Rightarrow> s = [])"

definition or_else :: "string option \<Rightarrow> string option \<Rightarrow> string" where
  "or_else a b =
     (case a of
        Some s \<Rightarrow> (if s \<noteq> [] then s else (case b of Some t \<Rightarrow> t | None \<Rightarrow> []))
      | None \<Rightarrow> (case b of Some t \<Rightarrow> t | None \<Rightarrow> []))"

definition coordinates_of :: "json \<Rightarrow> json" where
  "coordinates_of geocodingResult =
     (if truthy geocodingResult
      then object [(''lat'', get_field geocodingResult ''lat''),
                   (''lng'', get_field geocodingResult ''lng'')]
      else JNull)"

text \<open>Step 2 of \<open>extract-and-geocode\<close>: the primary location is geocoded when there is
  one, and an error of the chain is caught and logged.\<close>

definition geocodingResult :: "'e env_scheme \<Rightarrow> json \<Rightarrow> json" where
  "geocodingResult env extracted =
     (case get_field extracted ''primary_location'' of
        None \<Rightarrow> JNull
      | Some primary_location \<Rightarrow>
          (if truthy primary_location
           then (case fst (geocodeLocation env primary_location) of
                   Inr r \<Rightarrow> r
                 | Inl error \<Rightarrow> JNull)
           else JNull))"

definition extract_and_geocode_try ::
  "'e env_scheme \<Rightarrow> world \<Rightarrow> string option \<Rightarrow> string option \<Rightarrow> (exn + response) \<times> world" where
  "extract_and_geocode_try env w text description =
     (if absent text \<and> absent description
      then (Inr (Response 400 (JObj [(''error'', JStr ''text or description is required'')])), w)
      else
        (let inputText = or_else text description;
             cacheKey = geocode_cacheKey inputText
         in case getCachedData env (cache w) cacheKey of
              (Inl e, tbl) \<Rightarrow> (Inl e, w\<lparr>cache := tbl\<rparr>)
            | (Inr cachedResult, tbl) \<Rightarrow>
                (if truthy cachedResult then (Inr (Response 200 cachedResult), w\<lparr>cache := tbl\<rparr>)
                 else
                   (case extractedLocations env inputText of
                      Inl e \<Rightarrow> (Inl e, w\<lparr>cache := tbl\<rparr>)
                    | Inr extracted \<Rightarrow>
                        (let geocoding = geocodingResult env extracted;
                             result = JObj [(''input_text'', JStr inputText),
                                            (''extracted_locations'', extracted),
                                            (''geocoding'', geocoding),
                                            (''coordinates'', coordinates_of geocoding),
                                            (''timestamp'', JStr (toISOString env (now env)))]
                         in case setCachedData env tbl cacheKey result 3600 of
                              (Inl e, tbl') \<Rightarrow> (Inl e, w\<lparr>cache := tbl'\<rparr>)
                            | (Inr u, tbl') \<Rightarrow>
                                (Inr (Response 200 result), w\<lparr>cache := tbl'\<rparr>))))))"

definition extract_and_geocode ::
  "'e env_scheme \<Rightarrow> world \<Rightarrow> string option \<Rightarrow> string option \<Rightarrow> response \<times> world" where
  "extract_and_geocode env w text description =
     (case extract_and_geocode_try env w text description of
        (Inl error, w') \<Rightarrow>
          (Response 500 (JObj [(''error'', JStr ''Failed to extract and geocode location'')]), w')
      | (Inr res, w') \<Rightarrow> (res, w'))"

definition coordinates_try ::
  "'e env_scheme \<Rightarrow> world \<Rightarrow> string option \<Rightarrow> (exn + response) \<times> world" where
  "coordinates_try env w location_name =
     (if absent location_name
      then (Inr (Response 400 (JObj [(''error'', JStr ''location_name is required'')])), w)
      else
        (let name = or_else location_name None;
             cacheKey = direct_geocode_cacheKey name
         in case getCachedData env (cache w) cacheKey of
              (Inl e, tbl) \<Rightarrow> (Inl e, w\<lparr>cache := tbl\<rparr>)
            | (Inr cachedResult, tbl) \<Rightarrow>
                (if truthy cachedResult then (Inr (Response 200 cachedResult), w\<lparr>cache := tbl\<rparr>)
                 else
                   (case fst (geocodeLocation env (JStr name)) of
                      Inl e \<Rightarrow> (Inl e, w\<lparr>cache := tbl\<rparr>)
                    | Inr geocoding \<Rightarrow>
                        (let result = JObj [(''location_name'', JStr name),
                                            (''coordinates'', coordinates_of geocoding),
                                            (''geocoding'', geocoding),
                                            (''timestamp'', JStr (toISOString env (now env)))]
                         in case setCachedData env tbl cacheKey result 3600 of
                              (Inl e, tbl') \<Rightarrow> (Inl e, w\<lparr>cache := tbl'\<rparr>)
                            | (Inr u, tbl') \<Rightarrow>
                                (Inr (Response 200 result), w\<lparr>cache := tbl'\<rparr>))))))"

definition coordinates ::
  "'e env_scheme \<Rightarrow> world \<Rightarrow> string option \<Rightarrow> response \<times> world" where
  "coordinates env w location_name =
     (case coordinates_try env w location_name of
        (Inl error, w') \<Rightarrow> (Response 500 (JObj [(''error'', JStr ''Failed to geocode location'')]), w')
      | (Inr res, w') \<Rightarrow> (res, w'))"

text \<open>\<^verbatim>\<open>supabase.from('reports').update({ verification_status: status }).eq('id', report_id)\<close>\<close>

definition db_update_report ::
  "fault \<Rightarrow> report_row list \<Rightarrow> string \<Rightarrow> string \<Rightarrow> (exn + unit pg_result) \<times> report_row list" where
  "db_update_report f rows rid status =
     (case f of
        Rejects e \<Rightarrow> (Inl e, rows)
      | Fails c \<Rightarrow> (Inr (PgError c), rows)
      | NoFault \<Rightarrow>
          (Inr (Data ()),
           map (\<lambda>r. if report_id r = rid then r\<lparr>verification_status := status\<rparr> else r) rows))"

text \<open>
  The block of \<open>verify-image\<close> that updates the report: inside its \<open>try\<close> the status is
  computed, the update awaited and the status added to the result; its \<open>catch\<close> logs.
  The object \<open>{ error }\<close> that the update resolves to is not looked at.
\<close>

definition add_field :: "json \<Rightarrow> string \<Rightarrow> json \<Rightarrow> json" where
  "add_field obj k v = (case obj of JObj kvs \<Rightarrow> JObj (kvs @ [(k, v)]) | other \<Rightarrow> other)"

definition update_report_status ::
  "'e env_scheme \<Rightarrow> report_row list \<Rightarrow> string \<Rightarrow> json \<Rightarrow> json \<Rightarrow> json \<times> report_row list" where
  "update_report_status env rows rid verification result =
     (let status = verification_status_of env verification
      in case db_update_report (update_fault env) rows rid status of
           (Inl error, rows') \<Rightarrow> (result, rows')
         | (Inr answer, rows') \<Rightarrow> (add_field result ''verification_status'' (JStr status), rows'))"

definition verify_image_try ::
  "'e env_scheme \<Rightarrow> world \<Rightarrow> string \<Rightarrow> string option \<Rightarrow> string option
     \<Rightarrow> (exn + response) \<times> world" where
  "verify_image_try env w disasterId image_url rid =
     (if absent image_url
      then (Inr (Response 400 (JObj [(''error'', JStr ''image_url is required'')])), w)
      else
        (let url = or_else image_url None;
             cacheKey = image_verification_cacheKey url
         in case getCachedData env (cache w) cacheKey of
              (Inl e, tbl) \<Rightarrow> (Inl e, w\<lparr>cache := tbl\<rparr>)
            | (Inr cachedResult, tbl) \<Rightarrow>
                (if truthy cachedResult then (Inr (Response 200 cachedResult), w\<lparr>cache := tbl\<rparr>)
                 else
                   (case verificationResult env url of
                      Inl e \<Rightarrow> (Inl e, w\<lparr>cache := tbl\<rparr>)
                    | Inr verification \<Rightarrow>
                        (let result0 = object [(''disaster_id'', Some (JStr disasterId)),
                                               (''report_id'', map_option JStr rid),
                                               (''image_url'', Some (JStr url)),
                                               (''verification'', Some verification),
                                               (''timestamp'', Some (JStr (toISOString env (now env))))];
                             (result, rows) =
                               (if absent rid then (result0, reports w)
                                else update_report_status env (reports w) (or_else rid None)
                                       verification result0)
                         in case setCachedData env tbl cacheKey result 3600 of
                              (Inl e, tbl') \<Rightarrow> (Inl e, w\<lparr>cache := tbl', reports := rows\<rparr>)
                            | (Inr u, tbl') \<Rightarrow>
                                (Inr (Response 200 result),
                                 w\<lparr>cache := tbl', reports := rows\<rparr>))))))"

definition verify_image ::
  "'e env_scheme \<Rightarrow> world \<Rightarrow> string \<Rightarrow> string option \<Rightarrow> string option \<Rightarrow> response \<times> world" where
  "verify_image env w disasterId image_url rid =
     (case verify_image_try env w disasterId image_url rid of
        (Inl error, w') \<Rightarrow> (Response 500 (JObj [(''error'', JStr ''Failed to verify image'')]), w')
      | (Inr res, w') \<Rightarrow> (res, w'))"

section \<open>Histories of the Socket.IO server\<close>

text \<open>
  What the server is told by its clients, in order: a connection, the message
  \<open>join_disaster\<close> of a connected socket, a disconnection. No other handler changes the
  rooms.
\<close>

datatype io_op = Connect nat | Join nat string | Disconnect nat

fun apply_op :: "io_server \<Rightarrow> io_op \<Rightarrow> io_server" where
  "apply_op io (Connect sid) = connection io sid"
| "apply_op io (Join sid disasterId) = join_disaster io sid disasterId"
| "apply_op io (Disconnect sid) = disconnect io sid"

definition run :: "io_op list \<Rightarrow> io_server" where
  "run ops = foldl apply_op [] ops"

definition joined_only :: "io_op list \<Rightarrow> io_server \<Rightarrow> bool" where
  "joined_only ops io \<longleftrightarrow>
     (\<forall>(s, rooms)\<in>set io. \<forall>room\<in>set rooms. \<exists>d. room = disaster_room d \<and> Join s d \<in> set ops)"

section \<open>Environments and states used as examples\<close>

definition quiet :: "int \<Rightarrow> store_env" where
  "quiet t = \<lparr>now = t, select_fault = NoFault, delete_fault = NoFault, upsert_fault = NoFault\<rparr>"

definition broken :: store_env where
  "broken = \<lparr>now = 2000, select_fault = Rejects (Error ''fetch failed''),
     delete_fault = Fails ''57014'', upsert_fault = Fails ''57014''\<rparr>"

definition row1 :: cache_row where
  "row1 = \<lparr>row_id = 1, row_key = ''k'', row_value = JStr ''v'', row_expires_at = 1000\<rparr>"

text \<open>No key is configured and no request gets through. Of the patterns of
  \<open>extractLocationsFallback\<close> the first matches \<open>Springfield, IL\<close> in the one text given
  here, with the group \<open>Springfield\<close>, and the two others match nothing in it.\<close>

definition offline :: env where
  "offline = \<lparr>now = 0, select_fault = NoFault, delete_fault = NoFault, upsert_fault = NoFault,
     GOOGLE_MAPS_API_KEY = False, MAPBOX_ACCESS_TOKEN = False,
     google_get = (\<lambda>l. Inl (Error ''timeout of 10000ms exceeded'')),
     mapbox_get = (\<lambda>l. Inl (Error ''timeout of 10000ms exceeded'')),
     osm_get = (\<lambda>l. Inl (Error ''timeout of 10000ms exceeded'')),
     parseFloat = (\<lambda>v. v),
     GEMINI_API_KEY = False,
     gemini_post = (\<lambda>p. Inl (Error ''timeout of 30000ms exceeded'')),
     JSON_parse = (\<lambda>s. None),
     matchAll_locations =
       (\<lambda>t. if t = ''Flood in Springfield, IL'' then [''Springfield''] else []),
     Math_floor_random_40 = 20,
     toISOString = (\<lambda>t. ''1970-01-01T00:00:00.000Z''),
     ToNumber = (\<lambda>v. None),
     update_fault = NoFault\<rparr>"

text \<open>Both keys are configured; Google Maps and Mapbox answer without a result, and
  OpenStreetMap answers with an empty array.\<close>

definition no_hits :: env where
  "no_hits = offline\<lparr>GOOGLE_MAPS_API_KEY := True, MAPBOX_ACCESS_TOKEN := True,
     google_get := (\<lambda>l. Inr (''ZERO_RESULTS'', [])),
     mapbox_get := (\<lambda>l. Inr []),
     osm_get := (\<lambda>l. Inr [])\<rparr>"

text \<open>Google Maps is down, Mapbox answers, and OpenStreetMap would answer too.\<close>

definition mapbox_up :: env where
  "mapbox_up = offline\<lparr>GOOGLE_MAPS_API_KEY := True, MAPBOX_ACCESS_TOKEN := True,
     google_get := (\<lambda>l. Inl (Error ''Request failed with status code 503'')),
     mapbox_get := (\<lambda>l. Inr [\<lparr>hit_lat = JNum 40.72, hit_lng = JNum (- 74.01),
        hit_address = JStr ''Lower Manhattan, New York'', hit_place_id = JStr ''place.1''\<rparr>]),
     osm_get := (\<lambda>l. Inr [\<lparr>hit_lat = JNum 40.7, hit_lng = JNum (- 74),
        hit_address = JStr ''Manhattan'', hit_place_id = JStr ''42''\<rparr>])\<rparr>"

text \<open>Gemini answers in prose, and with a JSON object.\<close>

definition chatty :: env where
  "chatty = offline\<lparr>GEMINI_API_KEY := True,
     gemini_post := (\<lambda>p. Inr (Some ''The image looks authentic.''))\<rparr>"

definition scored_answer :: string where
  "scored_answer =
     ''Result: {'' @ [CHR 0x22] @ ''authenticity_score'' @ [CHR 0x22] @ '': 55} end''"

definition scored_json :: string where
  "scored_json = ''{'' @ [CHR 0x22] @ ''authenticity_score'' @ [CHR 0x22] @ '': 55}''"

definition scoring :: env where
  "scoring = offline\<lparr>GEMINI_API_KEY := True,
     gemini_post := (\<lambda>p. Inr (Some scored_answer)),
     JSON_parse := (\<lambda>s. if s = scored_json then Some (JObj [(''authenticity_score'', JNum 55)])
                          else None)\<rparr>"

definition empty_world :: world where
  "empty_world = \<lparr>cache = [], reports = []\<rparr>"




definition history :: "io_op list" where
  "history = [Connect 1, Connect 2, Join 1 ''A'', Join 2 ''B'', Connect 3]"

section \<open>The cache: reading, failures, writing twice\<close>

lemma filter_key_distinct:
  "distinct (map row_key tbl) \<Longrightarrow>
   filter (\<lambda>r. row_key r = k) tbl =
     (case find (\<lambda>r. row_key r = k) tbl of None \<Rightarrow> [] | Some r \<Rightarrow> [r])"
proof (induction tbl)
  case Nil
  then show ?case by simp
next
  case (Cons a tbl)
  show ?case
  proof (cases "row_key a = k")
    case True
    with Cons.prems have "k \<notin> row_key ` set tbl" by simp
    then have "\<forall>r\<in>set tbl. row_key r \<noteq> k" by blast
    then have "filter (\<lambda>r. row_key r = k) tbl = []" by (simp add: filter_empty_conv)
    with True show ?thesis by simp
  next
    case False
    with Cons show ?thesis by simp
  qed
qed

text \<open>
  Claim C7, as the code has it. The keys of the table are distinct (the column is
  \<open>UNIQUE\<close>) and the database answers. Then \<open>getCachedData\<close> returns the stored value
  exactly when a row of that key is there and its \<open>expires_at\<close> is not before the current
  time, the instant of expiry included; otherwise it returns \<open>null\<close>, and when the row was
  there and its \<open>expires_at\<close> is before the current time, the row is deleted.
\<close>

theorem getCachedData_not_expired:
  assumes "select_fault env = NoFault" and "delete_fault env = NoFault"
    and "distinct (map row_key tbl)"
  shows "getCachedData env tbl k =
     (case find (\<lambda>r. row_key r = k) tbl of
        None \<Rightarrow> (Inr JNull, tbl)
      | Some r \<Rightarrow>
          if row_expires_at r < now env
          then (Inr JNull, filter (\<lambda>r. row_key r \<noteq> k) tbl)
          else (Inr (row_value r), tbl))"
  using assms
  by (simp add: getCachedData_def getCachedData_try_def db_select_single_def db_delete_eq_def
      filter_key_distinct split: option.splits)

theorem getCachedData_not_expired_witness:
  "getCachedData (quiet 999) [row1] ''k'' = (Inr (JStr ''v''), [row1])
   \<and> getCachedData (quiet 1000) [row1] ''k'' = (Inr (JStr ''v''), [row1])
   \<and> getCachedData (quiet 1001) [row1] ''k'' = (Inr JNull, [])
   \<and> getCachedData (quiet 1001) [row1] ''j'' = (Inr JNull, [row1])"
  using getCachedData_not_expired [of "quiet 999" "[row1]" "''k''"]
    getCachedData_not_expired [of "quiet 1000" "[row1]" "''k''"]
    getCachedData_not_expired [of "quiet 1001" "[row1]" "''k''"]
    getCachedData_not_expired [of "quiet 1001" "[row1]" "''j''"]
  by (simp add: quiet_def row1_def)

text \<open>At the instant of expiry the current time is not strictly before \<open>expires_at\<close>, and
  the value is returned all the same.\<close>

theorem getCachedData_at_expiry_counterexample:
  "\<not> now (quiet 1000) < row_expires_at row1
   \<and> fst (getCachedData (quiet 1000) [row1] ''k'') = Inr (JStr ''v'')"
  by (simp add: getCachedData_def getCachedData_try_def db_select_single_def quiet_def row1_def)

text \<open>The sweep draws the same line: it keeps the rows whose \<open>expires_at\<close> is not
  before the current time.\<close>

lemma clearExpiredCache_keeps:
  "delete_fault env = NoFault \<Longrightarrow>
   clearExpiredCache env tbl = (Inr (), filter (\<lambda>r. now env \<le> row_expires_at r) tbl)"
  by (simp add: clearExpiredCache_def db_delete_lt_def not_less)

text \<open>
  Claim C8. Whatever the database client does, \<open>getCachedData\<close> and \<open>setCachedData\<close>
  return and do not throw. When the read fails (the call rejects or answers with an
  error), and when the deletion of a stale row fails, \<open>getCachedData\<close> returns \<open>null\<close> and
  leaves the table as it is; when the write fails, \<open>setCachedData\<close> returns and leaves
  the table as it is.
\<close>

theorem store_failure_is_a_miss:
  "(select_fault env \<noteq> NoFault \<longrightarrow> getCachedData env tbl k = (Inr JNull, tbl))
   \<and> (select_fault env = NoFault \<and> delete_fault env \<noteq> NoFault
        \<and> filter (\<lambda>r. row_key r = k) tbl = [r] \<and> row_expires_at r < now env
      \<longrightarrow> getCachedData env tbl k = (Inr JNull, tbl))
   \<and> (\<exists>v. fst (getCachedData env tbl k) = Inr v)
   \<and> (upsert_fault env \<noteq> NoFault \<longrightarrow> setCachedData env tbl k v ttl = (Inr (), tbl))
   \<and> fst (setCachedData env tbl k v ttl) = Inr ()"
proof -
  have get_select: "getCachedData env tbl k = (Inr JNull, tbl)" if "select_fault env \<noteq> NoFault"
    using that
    by (cases "select_fault env")
      (simp_all add: getCachedData_def getCachedData_try_def db_select_single_def)
  have get_delete: "getCachedData env tbl k = (Inr JNull, tbl)"
    if "select_fault env = NoFault" "delete_fault env \<noteq> NoFault"
      "filter (\<lambda>r. row_key r = k) tbl = [r]" "row_expires_at r < now env"
    using that
    by (cases "delete_fault env")
      (simp_all add: getCachedData_def getCachedData_try_def db_select_single_def db_delete_eq_def)
  have get_total: "\<exists>v. fst (getCachedData env tbl k) = Inr v"
    by (cases "getCachedData_try env tbl k"; cases "fst (getCachedData_try env tbl k)")
      (simp_all add: getCachedData_def)
  have set_fault: "setCachedData env tbl k v ttl = (Inr (), tbl)" if "upsert_fault env \<noteq> NoFault"
    using that
    by (cases "upsert_fault env")
      (simp_all add: setCachedData_def setCachedData_try_def db_upsert_def Let_def)
  have set_total: "fst (setCachedData env tbl k v ttl) = Inr ()"
    by (cases "setCachedData_try env tbl k v ttl"; cases "fst (setCachedData_try env tbl k v ttl)")
      (simp_all add: setCachedData_def)
  from get_select get_delete get_total set_fault set_total show ?thesis by blast
qed

theorem store_failure_is_a_miss_witness:
  "select_fault broken \<noteq> NoFault \<and> getCachedData broken [row1] ''k'' = (Inr JNull, [row1])
   \<and> upsert_fault broken \<noteq> NoFault
   \<and> setCachedData broken [row1] ''j'' (JStr ''w'') 60 = (Inr (), [row1])
   \<and> select_fault (broken\<lparr>select_fault := NoFault\<rparr>) = NoFault
   \<and> delete_fault (broken\<lparr>select_fault := NoFault\<rparr>) \<noteq> NoFault
   \<and> filter (\<lambda>r. row_key r = ''k'') [row1] = [row1] \<and> row_expires_at row1 < now broken
   \<and> getCachedData (broken\<lparr>select_fault := NoFault\<rparr>) [row1] ''k'' = (Inr JNull, [row1])"
  using store_failure_is_a_miss [of broken "[row1]" "''k''" row1 "JStr ''w''" 60]
    store_failure_is_a_miss [of broken "[row1]" "''j''" row1 "JStr ''w''" 60]
    store_failure_is_a_miss [of "broken\<lparr>select_fault := NoFault\<rparr>" "[row1]" "''k''" row1
      "JStr ''w''" 60]
  by (simp add: broken_def row1_def)

text \<open>Inside the \<open>try\<close> blocks the failures do throw: the two results above are the work
  of the \<open>catch\<close> blocks.\<close>

lemma throws_inside_try:
  "fst (getCachedData_try broken [row1] ''k'') = Inl (Error ''fetch failed'')
   \<and> fst (setCachedData_try broken [] ''k'' (JStr ''w'') 60) = Inl (PostgrestError ''57014'')"
  by (simp add: getCachedData_try_def setCachedData_try_def db_select_single_def db_upsert_def
      broken_def valid_date_def Let_def)

text \<open>
  Claim C9, at the input where the code departs from it. On an empty table
  \<open>setCachedData('k', 'v1', 60)\<close> stores its row. A second call
  \<open>setCachedData('k', 'v2', 60)\<close> finds no conflict on the primary key \<open>id\<close>, runs into the
  constraint \<open>UNIQUE\<close> of \<open>key\<close>, has its error caught and logged, and leaves the table
  as it was: the one row of \<open>k\<close> still holds \<open>v1\<close>, and \<open>getCachedData('k')\<close> returns \<open>v1\<close>.
\<close>

theorem setCachedData_second_write_is_lost:
  "setCachedData (quiet 0) [] ''k'' (JStr ''v1'') 60
     = (Inr (), [\<lparr>row_id = 1, row_key = ''k'', row_value = JStr ''v1'', row_expires_at = 60000\<rparr>])
   \<and> setCachedData (quiet 5)
        [\<lparr>row_id = 1, row_key = ''k'', row_value = JStr ''v1'', row_expires_at = 60000\<rparr>]
        ''k'' (JStr ''v2'') 60
     = (Inr (), [\<lparr>row_id = 1, row_key = ''k'', row_value = JStr ''v1'', row_expires_at = 60000\<rparr>])
   \<and> fst (getCachedData (quiet 5)
        [\<lparr>row_id = 1, row_key = ''k'', row_value = JStr ''v1'', row_expires_at = 60000\<rparr>] ''k'')
     = Inr (JStr ''v1'')"
  by (simp add: setCachedData_def setCachedData_try_def db_upsert_def quiet_def fresh_id_def
      getCachedData_def getCachedData_try_def db_select_single_def valid_date_def Let_def)

text \<open>The same for every table: a write under a key that is there changes nothing. A
  write of a value other than \<open>null\<close> under a key that is not there, with an expiry
  that is a valid date, is read back until it expires, in the form in which the column
  stores it.\<close>

lemma setCachedData_existing_key:
  "k \<in> row_key ` set tbl \<Longrightarrow> setCachedData env tbl k v ttl = (Inr (), tbl)"
  by (cases "upsert_fault env")
    (simp_all add: setCachedData_def setCachedData_try_def db_upsert_def Let_def)

lemma setCachedData_then_get:
  assumes "upsert_fault env = NoFault" and "select_fault env' = NoFault"
    and "k \<notin> row_key ` set tbl" and "v \<noteq> JNull"
    and "valid_date (now env + ttl * 1000)" and "now env' \<le> now env + ttl * 1000"
  shows "fst (getCachedData env' (snd (setCachedData env tbl k v ttl)) k) = Inr (jsonb v)"
proof -
  from assms(3) have "filter (\<lambda>r. row_key r = k) tbl = []"
    by (auto simp: filter_empty_conv)
  with assms show ?thesis
    by (simp add: setCachedData_def setCachedData_try_def db_upsert_def getCachedData_def
        getCachedData_try_def db_select_single_def Let_def)
qed

text \<open>An expiry beyond the range of \<open>Date\<close> and a value \<open>null\<close> are not stored.\<close>

lemma setCachedData_not_stored:
  "\<not> valid_date (now env + ttl * 1000) \<or> v = JNull
   \<Longrightarrow> setCachedData env tbl k v ttl = (Inr (), tbl)"
  by (cases "upsert_fault env")
    (auto simp: setCachedData_def setCachedData_try_def db_upsert_def Let_def)

text \<open>Neither function breaks the distinctness of the keys.\<close>

lemma cache_keys_stay_distinct:
  assumes "distinct (map row_key tbl)"
  shows "distinct (map row_key (snd (setCachedData env tbl k v ttl)))"
    and "distinct (map row_key (snd (getCachedData env tbl k)))"
proof -
  show "distinct (map row_key (snd (setCachedData env tbl k v ttl)))"
    using assms
    by (cases "upsert_fault env")
      (auto simp: setCachedData_def setCachedData_try_def db_upsert_def Let_def)
  have "snd (getCachedData env tbl k) = tbl
      \<or> snd (getCachedData env tbl k) = filter (\<lambda>r. row_key r \<noteq> k) tbl"
    by (cases "select_fault env"; cases "delete_fault env")
      (auto simp: getCachedData_def getCachedData_try_def db_select_single_def db_delete_eq_def
        split: list.splits)
  with assms show "distinct (map row_key (snd (getCachedData env tbl k)))"
    by (auto simp: distinct_map_filter)
qed

section \<open>The fallback chain: order, short circuit, total failure\<close>

lemma resolve_loop_fails:
  "fails (g x) \<Longrightarrow>
   fst (resolve_loop i (g # gs) x) = fst (resolve_loop (Suc i) gs x)
   \<and> invoked (snd (resolve_loop i (g # gs) x)) = i # invoked (snd (resolve_loop (Suc i) gs x))
   \<and> warnings (snd (resolve_loop i (g # gs) x))
       = (case g x of Inl e \<Rightarrow> [message e] | Inr v \<Rightarrow> [])
         @ warnings (snd (resolve_loop (Suc i) gs x))"
  by (cases "g x") (simp_all add: fails_def split: prod.splits)

text \<open>
  Claim C3, as the code has it. When every provider of the list fails, the loop has
  called each of them once, in order, and the outcome is the one error
  \<open>All geocoding services failed\<close>, whatever the reasons were. The reason of each
  provider that threw is handed to \<open>logger.warn\<close>, in order; it is not part of the
  error.
\<close>

theorem all_providers_fail:
  assumes "\<forall>g\<in>set gs. fails (g x)"
  shows "fst (resolve_loop i gs x) = Inl (Error ''All geocoding services failed'')
   \<and> invoked (snd (resolve_loop i gs x)) = [i..<i + length gs]
   \<and> warnings (snd (resolve_loop i gs x)) =
       concat (map (\<lambda>g. case g x of Inl e \<Rightarrow> [message e] | Inr v \<Rightarrow> []) gs)"
  using assms
proof (induction gs arbitrary: i)
  case Nil
  then show ?case by simp
next
  case (Cons g gs)
  from Cons.prems have "fails (g x)" and "\<forall>g\<in>set gs. fails (g x)" by simp_all
  from resolve_loop_fails [of g x i gs, OF this(1)] Cons.IH [OF this(2), of "Suc i"]
  show ?case
    by (simp add: upt_conv_Cons del: upt_Suc resolve_loop.simps)
qed

lemma geocoders_offline:
  "geocodeWithGoogleMaps offline l = Inl (Error ''Google Maps API key not configured'')"
  "geocodeWithMapbox offline l = Inl (Error ''Mapbox access token not configured'')"
  "geocodeWithOpenStreetMap offline l = Inl (Error ''timeout of 10000ms exceeded'')"
  by (simp_all add: geocodeWithGoogleMaps_def geocodeWithMapbox_def geocodeWithOpenStreetMap_def
      offline_def)

lemma geocoders_no_hits:
  "geocodeWithGoogleMaps no_hits l = Inl (Error ''Google Maps geocoding failed: ZERO_RESULTS'')"
  "geocodeWithMapbox no_hits l = Inl (Error ''Mapbox geocoding returned no results'')"
  "geocodeWithOpenStreetMap no_hits l = Inl (Error ''OpenStreetMap geocoding returned no results'')"
  by (simp_all add: geocodeWithGoogleMaps_def geocodeWithMapbox_def geocodeWithOpenStreetMap_def
      no_hits_def offline_def)

theorem all_providers_fail_witness:
  "fails (geocodeWithGoogleMaps offline (JStr ''Springfield''))
   \<and> fails (geocodeWithMapbox offline (JStr ''Springfield''))
   \<and> fails (geocodeWithOpenStreetMap offline (JStr ''Springfield''))
   \<and> fst (geocodeLocation offline (JStr ''Springfield''))
       = Inl (Error ''All geocoding services failed'')
   \<and> invoked (snd (geocodeLocation offline (JStr ''Springfield''))) = [0, 1, 2]
   \<and> warnings (snd (geocodeLocation offline (JStr ''Springfield''))) =
       [''Google Maps API key not configured'', ''Mapbox access token not configured'',
        ''timeout of 10000ms exceeded'']"
proof -
  have h: "\<forall>g\<in>set (geocoders offline). fails (g (JStr ''Springfield''))"
    by (simp add: geocoders_def geocoders_offline fails_def)
  have "[0..<3] = [0, 1, Suc 1]" by (simp add: upt_conv_Cons)
  with h all_providers_fail [OF h, of 0] show ?thesis
    by (simp add: geocodeLocation_def geocoders_def geocoders_offline fails_def
        del: resolve_loop.simps)
qed

text \<open>Two runs in which no provider gives the same reason as in the other end in the
  same error.\<close>

theorem all_providers_fail_counterexample:
  "fst (geocodeLocation offline (JStr ''Springfield''))
     = Inl (Error ''All geocoding services failed'')
   \<and> fst (geocodeLocation no_hits (JStr ''Springfield''))
     = Inl (Error ''All geocoding services failed'')
   \<and> warnings (snd (geocodeLocation offline (JStr ''Springfield''))) =
       [''Google Maps API key not configured'', ''Mapbox access token not configured'',
        ''timeout of 10000ms exceeded'']
   \<and> warnings (snd (geocodeLocation no_hits (JStr ''Springfield''))) =
       [''Google Maps geocoding failed: ZERO_RESULTS'', ''Mapbox geocoding returned no results'',
        ''OpenStreetMap geocoding returned no results'']"
  by (simp add: geocodeLocation_def geocoders_def geocoders_offline geocoders_no_hits)

text \<open>The loop alone, started at any position \<open>i\<close>.\<close>

lemma resolve_loop_first_success:
  assumes "n < length gs" and "(gs ! n) x = Inr r" and "truthy r"
    and "\<forall>j<n. fails ((gs ! j) x)"
  shows "fst (resolve_loop i gs x) = Inr r
   \<and> invoked (snd (resolve_loop i gs x)) = [i..<i + Suc n]"
  using assms
proof (induction gs arbitrary: i n)
  case Nil
  then show ?case by simp
next
  case (Cons g gs)
  show ?case
  proof (cases n)
    case 0
    with Cons.prems show ?thesis by simp
  next
    case (Suc m)
    with Cons.prems have m: "m < length gs" "(gs ! m) x = Inr r" "\<forall>j<m. fails ((gs ! j) x)"
      by auto
    from Cons.prems(4) Suc have "fails (g x)" by auto
    from resolve_loop_fails [of g x i gs, OF this]
      Cons.IH [OF m(1) m(2) Cons.prems(3) m(3), of "Suc i"] Suc
    show ?thesis
      by (simp add: upt_conv_Cons del: upt_Suc resolve_loop.simps)
  qed
qed

text \<open>
  Claim C5. For every list of providers: when the provider at position \<open>n\<close> returns a
  truthy result and every provider before it fails, the loop returns that result, and
  the providers it has called are those at the positions up to \<open>n\<close>, once each and in
  this order: each failure leads to the next provider, and no provider after the first
  success is called. \<open>geocodeLocation\<close> runs this loop from the first position on its
  list, which is Google Maps, Mapbox, OpenStreetMap in this order: it returns the
  result of the first of the three that succeeds and has called the providers up to
  that one and no other.
\<close>

theorem first_success_short_circuits:
  "(n < length gs \<and> (gs ! n) x = Inr r \<and> truthy r \<and> (\<forall>j<n. fails ((gs ! j) x))
      \<longrightarrow> fst (resolve_loop i gs x) = Inr r
          \<and> invoked (snd (resolve_loop i gs x)) = [i..<i + Suc n])
   \<and> (m < length (geocoders env) \<and> (geocoders env ! m) l = Inr r' \<and> truthy r'
        \<and> (\<forall>j<m. fails ((geocoders env ! j) l))
      \<longrightarrow> fst (geocodeLocation env l) = Inr r'
          \<and> invoked (snd (geocodeLocation env l)) = [0..<Suc m])
   \<and> geocoders env =
        [geocodeWithGoogleMaps env, geocodeWithMapbox env, geocodeWithOpenStreetMap env]
   \<and> (truthy r' \<and> geocodeWithGoogleMaps env l = Inr r'
      \<longrightarrow> geocodeLocation env l = (Inr r', [Invoked 0]))
   \<and> (truthy r' \<and> geocodeWithGoogleMaps env l = Inl e \<and> geocodeWithMapbox env l = Inr r'
      \<longrightarrow> geocodeLocation env l = (Inr r', [Invoked 0, Warned (message e), Invoked 1]))
   \<and> (truthy r' \<and> geocodeWithGoogleMaps env l = Inl e \<and> geocodeWithMapbox env l = Inl e'
        \<and> geocodeWithOpenStreetMap env l = Inr r'
      \<longrightarrow> geocodeLocation env l =
            (Inr r', [Invoked 0, Warned (message e), Invoked 1, Warned (message e'), Invoked 2]))"
proof -
  have loop: "fst (resolve_loop i gs x) = Inr r
      \<and> invoked (snd (resolve_loop i gs x)) = [i..<i + Suc n]"
    if "n < length gs \<and> (gs ! n) x = Inr r \<and> truthy r \<and> (\<forall>j<n. fails ((gs ! j) x))"
    using that resolve_loop_first_success [of n gs x r i] by blast
  have chain: "fst (geocodeLocation env l) = Inr r'
      \<and> invoked (snd (geocodeLocation env l)) = [0..<Suc m]"
    if "m < length (geocoders env) \<and> (geocoders env ! m) l = Inr r' \<and> truthy r'
        \<and> (\<forall>j<m. fails ((geocoders env ! j) l))"
    using that resolve_loop_first_success [of m "geocoders env" l r' 0]
    by (simp add: geocodeLocation_def del: upt_Suc)
  have three: "geocoders env =
        [geocodeWithGoogleMaps env, geocodeWithMapbox env, geocodeWithOpenStreetMap env]"
    by (simp add: geocoders_def)
  have first: "geocodeLocation env l = (Inr r', [Invoked 0])"
    if "truthy r' \<and> geocodeWithGoogleMaps env l = Inr r'"
    using that by (simp add: geocodeLocation_def geocoders_def)
  have second: "geocodeLocation env l = (Inr r', [Invoked 0, Warned (message e), Invoked 1])"
    if "truthy r' \<and> geocodeWithGoogleMaps env l = Inl e \<and> geocodeWithMapbox env l = Inr r'"
    using that by (simp add: geocodeLocation_def geocoders_def)
  have third: "geocodeLocation env l =
      (Inr r', [Invoked 0, Warned (message e), Invoked 1, Warned (message e'), Invoked 2])"
    if "truthy r' \<and> geocodeWithGoogleMaps env l = Inl e \<and> geocodeWithMapbox env l = Inl e'
        \<and> geocodeWithOpenStreetMap env l = Inr r'"
    using that by (simp add: geocodeLocation_def geocoders_def)
  from loop chain three first second third show ?thesis by blast
qed

lemma geocoders_mapbox_up:
  "geocodeWithGoogleMaps mapbox_up l = Inl (Error ''Request failed with status code 503'')"
  "geocodeWithMapbox mapbox_up l =
     Inr (JObj [(''lat'', JNum 40.72), (''lng'', JNum (- 74.01)),
                (''formatted_address'', JStr ''Lower Manhattan, New York''),
                (''place_id'', JStr ''place.1''), (''service'', JStr ''mapbox'')])"
  by (simp_all add: geocodeWithGoogleMaps_def geocodeWithMapbox_def mapbox_up_def offline_def
      place_def)

text \<open>Google Maps is down and Mapbox answers: the answer of Mapbox is returned, and
  OpenStreetMap, which would answer too, is not called.\<close>

theorem first_success_short_circuits_witness:
  "(1::nat) < length (geocoders mapbox_up)
   \<and> fails ((geocoders mapbox_up ! 0) (JStr ''Lower Manhattan, NYC''))
   \<and> truthy (JObj [(''lat'', JNum 40.72), (''lng'', JNum (- 74.01)),
                   (''formatted_address'', JStr ''Lower Manhattan, New York''),
                   (''place_id'', JStr ''place.1''), (''service'', JStr ''mapbox'')])
   \<and> geocodeLocation mapbox_up (JStr ''Lower Manhattan, NYC'') =
       (Inr (JObj [(''lat'', JNum 40.72), (''lng'', JNum (- 74.01)),
                   (''formatted_address'', JStr ''Lower Manhattan, New York''),
                   (''place_id'', JStr ''place.1''), (''service'', JStr ''mapbox'')]),
        [Invoked 0, Warned ''Request failed with status code 503'', Invoked 1])
   \<and> invoked (snd (geocodeLocation mapbox_up (JStr ''Lower Manhattan, NYC''))) = [0, 1]
   \<and> invoked (snd (resolve_loop 0 (geocoders mapbox_up) (JStr ''Lower Manhattan, NYC'')))
       = [0, 1]"
proof -
  let ?l = "JStr ''Lower Manhattan, NYC''"
  let ?r = "JObj [(''lat'', JNum 40.72), (''lng'', JNum (- 74.01)),
                 (''formatted_address'', JStr ''Lower Manhattan, New York''),
                 (''place_id'', JStr ''place.1''), (''service'', JStr ''mapbox'')]"
  have a: "(1::nat) < length (geocoders mapbox_up)"
    by (simp add: geocoders_def)
  have b: "(geocoders mapbox_up ! 1) ?l = Inr ?r"
    by (simp add: geocoders_def geocoders_mapbox_up)
  have c: "truthy ?r"
    by simp
  have d: "\<forall>j<1. fails ((geocoders mapbox_up ! j) ?l)"
    by (simp add: geocoders_def geocoders_mapbox_up fails_def)
  have d0: "fails ((geocoders mapbox_up ! 0) ?l)"
    using d by simp
  have up: "[0..<Suc 1] = [0, 1]" "[0..<0 + Suc 1] = [0, 1]"
    by (simp_all add: upt_conv_Cons)
  note main = first_success_short_circuits [of 1 "geocoders mapbox_up" "?l" "?r" 0 1 mapbox_up
      "?l" "?r"
      "Error ''Request failed with status code 503''" "Error []"]
  have "invoked (snd (resolve_loop 0 (geocoders mapbox_up) ?l)) = [0..<0 + Suc 1]"
    using main [THEN conjunct1] a b c d by blast
  then have loop: "invoked (snd (resolve_loop 0 (geocoders mapbox_up) ?l)) = [0, 1]"
    by (simp only: up)
  have "invoked (snd (geocodeLocation mapbox_up ?l)) = [0..<Suc 1]"
    using main [THEN conjunct2, THEN conjunct1] a b c d by blast
  then have chain: "invoked (snd (geocodeLocation mapbox_up ?l)) = [0, 1]"
    by (simp only: up)
  have "geocodeLocation mapbox_up ?l =
      (Inr ?r, [Invoked 0, Warned (message (Error ''Request failed with status code 503'')),
                Invoked 1])"
    using main [THEN conjunct2, THEN conjunct2, THEN conjunct2, THEN conjunct2, THEN conjunct1]
      c geocoders_mapbox_up [of ?l] by blast
  then have run: "geocodeLocation mapbox_up ?l =
      (Inr ?r, [Invoked 0, Warned ''Request failed with status code 503'', Invoked 1])"
    by (simp only: message.simps)
  from a d0 c run chain loop show ?thesis by simp
qed

section \<open>Cache keys: when two texts share a key\<close>

lemma b64_alphabet_length: "length b64_alphabet = 64"
  by (simp add: b64_alphabet_def)

lemma b64_alphabet_distinct: "distinct b64_alphabet"
  by (simp add: b64_alphabet_def)

lemma b64_char_inj: "i < 64 \<Longrightarrow> j < 64 \<Longrightarrow> b64_char i = b64_char j \<longleftrightarrow> i = j"
  using b64_alphabet_distinct b64_alphabet_length
  by (simp add: b64_char_def nth_eq_iff_index_eq)

lemma b64_char_not_pad: "i < 64 \<Longrightarrow> b64_char i \<noteq> CHR ''=''"
proof -
  assume "i < 64"
  then have "b64_char i \<in> set b64_alphabet"
    by (simp add: b64_char_def b64_alphabet_length)
  moreover have "CHR ''='' \<notin> set b64_alphabet"
    by (simp add: b64_alphabet_def)
  ultimately show ?thesis by auto
qed

text \<open>The digits of a byte in the three positions it can take in a group.\<close>

lemma digits_eq:
  fixes p q p' q' :: nat
  shows "q < n \<Longrightarrow> q' < n \<Longrightarrow> p * n + q = p' * n + q' \<Longrightarrow> p = p' \<and> q = q'"
proof -
  assume a: "q < n" "q' < n" "p * n + q = p' * n + q'"
  then have "(p * n + q) div n = (p' * n + q') div n" "(p * n + q) mod n = (p' * n + q') mod n"
    by simp_all
  with a(1,2) show ?thesis by simp
qed

lemma div_mod_eq:
  fixes x x' :: nat
  shows "x div n = x' div n \<Longrightarrow> x mod n = x' mod n \<Longrightarrow> x = x'"
  by (metis div_mult_mod_eq)

lemma byte_digits:
  fixes x :: nat
  assumes "x < 256"
  shows "x div 4 < 64" "x mod 4 < 4" "x div 16 < 16" "x mod 16 < 16" "x div 64 < 4" "x mod 64 < 64"
  using assms by simp_all

lemma idx_bounds:
  fixes x y z :: nat
  assumes "x < 256" "y < 256" "z < 256"
  shows "(x mod 4) * 16 + y div 16 < 64" "(x mod 4) * 16 < 64"
    "(y mod 16) * 4 + z div 64 < 64" "(y mod 16) * 4 < 64"
proof -
  have "x mod 4 \<le> 3" "y div 16 \<le> 15" "y mod 16 \<le> 15" "z div 64 \<le> 3"
    using assms by simp_all
  then show "(x mod 4) * 16 + y div 16 < 64" "(x mod 4) * 16 < 64"
    "(y mod 16) * 4 + z div 64 < 64" "(y mod 16) * 4 < 64"
    by linarith+
qed

lemma group1_inj:
  fixes x x' :: nat
  assumes "x < 256" "x' < 256"
    and "b64_char (x div 4) = b64_char (x' div 4)"
    and "b64_char ((x mod 4) * 16) = b64_char ((x' mod 4) * 16)"
  shows "x = x'"
proof -
  from assms(1,2,3) have d: "x div 4 = x' div 4"
    by (simp add: b64_char_inj byte_digits)
  have "(x mod 4) * 16 < 64" "(x' mod 4) * 16 < 64"
    using idx_bounds(2) assms(1,2) by blast+
  with assms(4) have "(x mod 4) * 16 = (x' mod 4) * 16"
    by (simp add: b64_char_inj)
  then have "x mod 4 = x' mod 4" by simp
  with d show ?thesis by (rule div_mod_eq)
qed

lemma group2_inj:
  fixes x x' y y' :: nat
  assumes "x < 256" "x' < 256" "y < 256" "y' < 256"
    and "b64_char (x div 4) = b64_char (x' div 4)"
    and "b64_char ((x mod 4) * 16 + y div 16) = b64_char ((x' mod 4) * 16 + y' div 16)"
  shows "x = x' \<and> y div 16 = y' div 16"
proof -
  from assms(1,2,5) have d: "x div 4 = x' div 4"
    by (simp add: b64_char_inj byte_digits)
  have "(x mod 4) * 16 + y div 16 < 64" "(x' mod 4) * 16 + y' div 16 < 64"
    using idx_bounds(1) assms(1-4) by blast+
  with assms(6) have "(x mod 4) * 16 + y div 16 = (x' mod 4) * 16 + y' div 16"
    by (simp add: b64_char_inj)
  with assms(3,4) have e: "x mod 4 = x' mod 4 \<and> y div 16 = y' div 16"
    by (intro digits_eq [of _ 16]) (simp_all add: byte_digits)
  with d have "x = x'" by (intro div_mod_eq [of x 4 x']) simp_all
  with e show ?thesis by simp
qed

lemma group3_inj:
  fixes y y' z z' :: nat
  assumes "y < 256" "y' < 256" "z < 256" "z' < 256"
    and "y div 16 = y' div 16"
    and "b64_char ((y mod 16) * 4 + z div 64) = b64_char ((y' mod 16) * 4 + z' div 64)"
    and "b64_char (z mod 64) = b64_char (z' mod 64)"
  shows "y = y' \<and> z = z'"
proof -
  have "(y mod 16) * 4 + z div 64 < 64" "(y' mod 16) * 4 + z' div 64 < 64"
    using idx_bounds(3) assms(1-4) by blast+
  with assms(6) have "(y mod 16) * 4 + z div 64 = (y' mod 16) * 4 + z' div 64"
    by (simp add: b64_char_inj)
  with assms(3,4) have e: "y mod 16 = y' mod 16 \<and> z div 64 = z' div 64"
    by (intro digits_eq [of _ 4]) (simp_all add: byte_digits)
  from assms(3,4,7) have "z mod 64 = z' mod 64"
    by (simp add: b64_char_inj byte_digits)
  with e have "z = z'" by (intro div_mod_eq [of z 64 z']) simp_all
  moreover from e assms(5) have "y = y'" by (intro div_mod_eq [of y 16 y']) simp_all
  ultimately show ?thesis by simp
qed

lemma group3_pad_inj:
  fixes y y' :: nat
  assumes "y < 256" "y' < 256"
    and "y div 16 = y' div 16"
    and "b64_char ((y mod 16) * 4) = b64_char ((y' mod 16) * 4)"
  shows "y = y'"
proof -
  have "(y mod 16) * 4 < 64" "(y' mod 16) * 4 < 64"
    using idx_bounds(4) assms(1,2) by blast+
  with assms(4) have "(y mod 16) * 4 = (y' mod 16) * 4"
    by (simp add: b64_char_inj)
  then have "y mod 16 = y' mod 16" by simp
  with assms(3) show ?thesis by (intro div_mod_eq [of y 16 y']) simp_all
qed

lemma pad_neq:
  "CHR ''='' \<noteq> b64_char ((of_char y mod 16) * 4 + of_char z div 64)"
  "CHR ''='' \<noteq> b64_char ((of_char y mod 16) * 4)"
  "CHR ''='' \<noteq> b64_char (of_char z mod 64)"
  using b64_char_not_pad [OF idx_bounds(3) [of "of_char y" "of_char y" "of_char z"]]
    b64_char_not_pad [OF idx_bounds(4) [of "of_char y" "of_char y" "of_char z"]]
    b64_char_not_pad [of "of_char z mod 64"]
  by (simp_all add: eq_commute)

text \<open>Two encodings of different shapes differ in a padding character.\<close>

lemma base64_Nil: "base64 t = [] \<longleftrightarrow> t = []"
  by (cases t rule: base64.cases) simp_all

lemma base64_1_2: "base64 [a] \<noteq> base64 [a', b']"
  using pad_neq(2) [of b'] by simp

lemma base64_1_3: "base64 [a] \<noteq> base64 (a' # b' # c' # r)"
  using pad_neq(1) [of b' c'] by simp

lemma base64_2_3: "base64 [a, b] \<noteq> base64 (a' # b' # c' # r)"
  using pad_neq(3) [of c'] by simp

lemma base64_1_1: "base64 [a] = base64 [a'] \<Longrightarrow> a = a'"
proof -
  assume "base64 [a] = base64 [a']"
  then have "b64_char (of_char a div 4) = b64_char (of_char a' div 4)"
    "b64_char ((of_char a mod 4) * 16) = b64_char ((of_char a' mod 4) * 16)"
    by simp_all
  then have "(of_char a :: nat) = of_char a'"
    by (intro group1_inj) simp_all
  then show ?thesis by simp
qed

lemma base64_2_2: "base64 [a, b] = base64 [a', b'] \<Longrightarrow> a = a' \<and> b = b'"
proof -
  assume "base64 [a, b] = base64 [a', b']"
  then have c: "b64_char (of_char a div 4) = b64_char (of_char a' div 4)"
      "b64_char ((of_char a mod 4) * 16 + of_char b div 16)
        = b64_char ((of_char a' mod 4) * 16 + of_char b' div 16)"
      "b64_char ((of_char b mod 16) * 4) = b64_char ((of_char b' mod 16) * 4)"
    by simp_all
  have e: "(of_char a :: nat) = of_char a' \<and> (of_char b :: nat) div 16 = of_char b' div 16"
    by (rule group2_inj [OF _ _ _ _ c(1,2)]) simp_all
  then have "(of_char b :: nat) = of_char b'"
    using group3_pad_inj [OF _ _ _ c(3)] by simp
  with e show ?thesis by simp
qed

lemma base64_3_3: "base64 (a # b # c # r) = base64 (a' # b' # c' # r')
  \<Longrightarrow> a = a' \<and> b = b' \<and> c = c' \<and> base64 r = base64 r'"
proof -
  assume "base64 (a # b # c # r) = base64 (a' # b' # c' # r')"
  then have c: "b64_char (of_char a div 4) = b64_char (of_char a' div 4)"
      "b64_char ((of_char a mod 4) * 16 + of_char b div 16)
        = b64_char ((of_char a' mod 4) * 16 + of_char b' div 16)"
      "b64_char ((of_char b mod 16) * 4 + of_char c div 64)
        = b64_char ((of_char b' mod 16) * 4 + of_char c' div 64)"
      "b64_char (of_char c mod 64) = b64_char (of_char c' mod 64)"
      "base64 r = base64 r'"
    by simp_all
  have e: "(of_char a :: nat) = of_char a' \<and> (of_char b :: nat) div 16 = of_char b' div 16"
    by (rule group2_inj [OF _ _ _ _ c(1,2)]) simp_all
  then have f: "(of_char b :: nat) = of_char b' \<and> (of_char c :: nat) = of_char c'"
    using group3_inj [OF _ _ _ _ _ c(3,4)] by simp
  with e c(5) show ?thesis by simp
qed

lemma base64_inj: "base64 s = base64 t \<Longrightarrow> s = t"
proof (induction s arbitrary: t rule: base64.induct)
  case 1
  then show ?case using base64_Nil [of t] by simp
next
  case (2 a)
  show ?case
  proof (cases t rule: base64.cases)
    case 1
    with "2.prems" base64_Nil [of "[a]"] show ?thesis by simp
  next
    case (2 a')
    with "2.prems" base64_1_1 [of a a'] show ?thesis by (simp del: base64.simps)
  next
    case (3 a' b')
    with "2.prems" base64_1_2 [of a a' b'] show ?thesis by (simp del: base64.simps)
  next
    case (4 a' b' c' rest')
    with "2.prems" base64_1_3 [of a a' b' c' rest'] show ?thesis by (simp del: base64.simps)
  qed
next
  case (3 a b)
  show ?case
  proof (cases t rule: base64.cases)
    case 1
    with "3.prems" base64_Nil [of "[a, b]"] show ?thesis by simp
  next
    case (2 a')
    with "3.prems" base64_1_2 [of a' a b] show ?thesis by (simp del: base64.simps)
  next
    case (3 a' b')
    with "3.prems" base64_2_2 [of a b a' b'] show ?thesis by (simp del: base64.simps)
  next
    case (4 a' b' c' rest')
    with "3.prems" base64_2_3 [of a b a' b' c' rest'] show ?thesis by (simp del: base64.simps)
  qed
next
  case (4 a b c rest)
  show ?case
  proof (cases t rule: base64.cases)
    case 1
    with "4.prems" base64_Nil [of "a # b # c # rest"] show ?thesis by simp
  next
    case (2 a')
    with "4.prems" base64_1_3 [of a' a b c rest] show ?thesis by (simp del: base64.simps)
  next
    case (3 a' b')
    with "4.prems" base64_2_3 [of a' b' a b c rest] show ?thesis by (simp del: base64.simps)
  next
    case (4 a' b' c' rest')
    with "4.prems" have e: "a = a' \<and> b = b' \<and> c = c' \<and> base64 rest = base64 rest'"
      by (intro base64_3_3) (simp del: base64.simps)
    then have "rest = rest'" using "4.IH" by simp
    with e 4 show ?thesis by (simp del: base64.simps)
  qed
qed

lemma take_4_more: "take (4 + m) (w # x # y # z # r) = w # x # y # z # take m r"
proof -
  have "4 + m = Suc (Suc (Suc (Suc m)))" by simp
  then show ?thesis by (simp only: take_Suc_Cons)
qed

lemma take_base64: "take (4 * n) (base64 s) = base64 (take (3 * n) s)"
proof (induction n arbitrary: s)
  case 0
  then show ?case by simp
next
  case (Suc n)
  show ?case
  proof (cases s rule: base64.cases)
    case (4 a b c rest)
    have "take (4 * Suc n) (base64 s) =
        base64 [a, b, c] @ take (4 * n) (base64 rest)"
      unfolding 4 by (simp add: take_4_more)
    also have "\<dots> = base64 [a, b, c] @ base64 (take (3 * n) rest)"
      by (simp only: Suc.IH)
    also have "\<dots> = base64 (take (3 * Suc n) s)"
    proof -
      have "take (3 * Suc n) s = a # b # c # take (3 * n) rest"
        unfolding 4 by (simp add: take_Cons')
      then show ?thesis by simp
    qed
    finally show ?thesis .
  qed simp_all
qed

lemma take_32_base64: "take 32 (base64 s) = base64 (take 24 s)"
  using take_base64 [of 8 s] by simp

text \<open>
  Claim C4, as the code has it. The key is a function of the text, so equal texts have
  equal keys. Within one route two texts have the same key exactly when their first 24
  bytes agree (32 characters of Base64 hold 24 bytes, and what follows is cut off), so
  two different texts with a common prefix of 24 bytes share a key. Keys of different
  routes are never equal, on any two texts, identical ones included.
\<close>

theorem cacheKey_equal_iff_prefix:
  "(geocode_cacheKey s = geocode_cacheKey t \<longleftrightarrow> take 24 s = take 24 t)
   \<and> (direct_geocode_cacheKey s = direct_geocode_cacheKey t \<longleftrightarrow> take 24 s = take 24 t)
   \<and> (image_verification_cacheKey s = image_verification_cacheKey t
        \<longleftrightarrow> take 24 s = take 24 t)
   \<and> geocode_cacheKey s \<noteq> image_verification_cacheKey t
   \<and> geocode_cacheKey s \<noteq> direct_geocode_cacheKey t
   \<and> direct_geocode_cacheKey s \<noteq> image_verification_cacheKey t"
proof -
  have "take 32 (base64 s) = take 32 (base64 t) \<longleftrightarrow> take 24 s = take 24 t"
    using base64_inj [of "take 24 s" "take 24 t"] by (auto simp: take_32_base64)
  then show ?thesis
    by (simp add: geocode_cacheKey_def direct_geocode_cacheKey_def image_verification_cacheKey_def)
qed

text \<open>Two addresses that differ after their 24th byte, and two image URLs of one host.\<close>

theorem cacheKey_collision_counterexample:
  "''Main Street 12, Springfield, IL'' \<noteq> ''Main Street 12, Springfield, MA''
   \<and> geocode_cacheKey ''Main Street 12, Springfield, IL''
     = geocode_cacheKey ''Main Street 12, Springfield, MA''
   \<and> ''https://cdn.example.org/uploads/flood.jpg'' \<noteq> ''https://cdn.example.org/uploads/fire.jpg''
   \<and> image_verification_cacheKey ''https://cdn.example.org/uploads/flood.jpg''
     = image_verification_cacheKey ''https://cdn.example.org/uploads/fire.jpg''"
  by (simp add: geocode_cacheKey_def image_verification_cacheKey_def take_32_base64)

lemma geocode_cacheKey_example:
  "geocode_cacheKey ''Main Street 12, Springfield, IL''
     = ''geocode_TWFpbiBTdHJlZXQgMTIsIFNwcmluZ2Zp''"
  by (simp add: geocode_cacheKey_def b64_char_def b64_alphabet_def)

section \<open>Rooms: who receives which event\<close>

lemma joined_only_step:
  assumes "joined_only ops io"
  shows "joined_only (ops @ [op]) (apply_op io op)"
proof (cases op)
  case (Connect sid)
  with assms show ?thesis
    by (auto simp: joined_only_def connection_def)
next
  case (Join sid d)
  with assms show ?thesis
    by (fastforce simp: joined_only_def join_disaster_def split: if_splits)
next
  case (Disconnect sid)
  with assms show ?thesis
    by (auto simp: joined_only_def disconnect_def)
qed

lemma joined_only_foldl:
  "joined_only pre io \<Longrightarrow> joined_only (pre @ ops) (foldl apply_op io ops)"
proof (induction ops arbitrary: pre io)
  case Nil
  then show ?case by simp
next
  case (Cons op ops)
  from joined_only_step [OF Cons.prems, of op]
  have "joined_only ((pre @ [op]) @ ops) (foldl apply_op (apply_op io op) ops)"
    by (rule Cons.IH)
  then show ?case by simp
qed

lemma joined_only_run: "joined_only ops (run ops)"
  using joined_only_foldl [of "[]" "[]" ops]
  by (simp add: run_def joined_only_def)

lemma disaster_room_inj: "disaster_room d = disaster_room d' \<longleftrightarrow> d = d'"
  by (simp add: disaster_room_def)

lemma io_to_emit_member:
  "(s, ev, p) \<in> set (io_to_emit io room ev' p') \<Longrightarrow> \<exists>rooms. (s, rooms) \<in> set io \<and> room \<in> set rooms"
  by (auto simp: io_to_emit_def)

text \<open>
  Claim C2, as the code has it. After any history of connections, \<open>join_disaster\<close>
  messages and disconnections, an event of resources (read or created) and an event of
  social media for a disaster reach a socket only if that socket has sent
  \<open>join_disaster\<close> for this disaster. The events of disasters themselves (created,
  updated, deleted) are sent with \<open>io.emit\<close> and reach every connected socket, whatever
  it has joined.
\<close>

theorem room_events_only_to_joined:
  "(m = ResourcesGet d x \<or> m = ResourceCreate d x \<or> m = SocialMediaGet d x
      \<longrightarrow> (\<forall>s ev p. (s, ev, p) \<in> set (notify (run ops) m) \<longrightarrow> Join s d \<in> set ops))
   \<and> (m = DisasterCreate x \<or> m = DisasterUpdate x \<or> m = DisasterDelete x
      \<longrightarrow> map fst (notify (run ops) m) = map fst (run ops))"
proof -
  have scoped: "Join s d \<in> set ops" if "(s, ev, p) \<in> set (io_to_emit (run ops) (disaster_room d) ev' p')"
    for s ev p ev' p'
  proof -
    from io_to_emit_member [OF that] obtain rooms
      where "(s, rooms) \<in> set (run ops)" "disaster_room d \<in> set rooms" by blast
    with joined_only_run [of ops] obtain d' where "disaster_room d = disaster_room d'" "Join s d' \<in> set ops"
      by (fastforce simp: joined_only_def)
    then show ?thesis by (simp add: disaster_room_inj)
  qed
  have all: "map fst (io_emit io ev p) = map fst io" for io ev p
    by (induction io) (auto simp: io_emit_def)
  from scoped all show ?thesis by auto
qed

lemma run_history: "run history = [(1, [''disaster_A'']), (2, [''disaster_B'']), (3, [])]"
  by (simp add: history_def run_def connection_def join_disaster_def disaster_room_def)

theorem room_events_only_to_joined_witness:
  "notify (run history) (SocialMediaGet ''B'' JNull) = [(2, ''social_media_updated'', JNull)]
   \<and> Join 2 ''B'' \<in> set history
   \<and> map fst (notify (run history) (DisasterDelete JNull)) = [1, 2, 3]"
  using room_events_only_to_joined [of "SocialMediaGet ''B'' JNull" "''B''" JNull history]
    room_events_only_to_joined [of "DisasterDelete JNull" "''B''" JNull history]
  unfolding run_history
  by (simp add: io_to_emit_def io_emit_def disaster_room_def history_def)

text \<open>Socket 1 has joined the room of disaster \<open>A\<close> only and socket 3 no room at all;
  both receive the update of disaster \<open>B\<close>.\<close>

theorem disaster_event_counterexample:
  "rooms_of (run history) 1 = [disaster_room ''A'']
   \<and> rooms_of (run history) 3 = []
   \<and> notify (run history) (DisasterUpdate (JObj [(''id'', JStr ''B'')])) =
       [(1, ''disaster_updated'',
           JObj [(''type'', JStr ''update''), (''data'', JObj [(''id'', JStr ''B'')])]),
        (2, ''disaster_updated'',
           JObj [(''type'', JStr ''update''), (''data'', JObj [(''id'', JStr ''B'')])]),
        (3, ''disaster_updated'',
           JObj [(''type'', JStr ''update''), (''data'', JObj [(''id'', JStr ''B'')])])]"
  by (simp add: run_history io_emit_def disaster_room_def rooms_of_def)

section \<open>The geocoding routes when the chain fails\<close>

lemma getCachedData_returns: "\<exists>v tbl'. getCachedData env tbl k = (Inr v, tbl')"
  by (cases "getCachedData_try env tbl k"; cases "fst (getCachedData_try env tbl k)")
    (simp_all add: getCachedData_def)

lemma setCachedData_returns: "\<exists>tbl'. setCachedData env tbl k v ttl = (Inr (), tbl')"
  by (cases "setCachedData_try env tbl k v ttl"; cases "fst (setCachedData_try env tbl k v ttl)")
    (simp_all add: setCachedData_def)

lemma geocode_offline:
  "geocodeLocation offline (JStr ''Springfield'') =
     (Inl (Error ''All geocoding services failed''),
      [Invoked 0, Warned ''Google Maps API key not configured'',
       Invoked 1, Warned ''Mapbox access token not configured'',
       Invoked 2, Warned ''timeout of 10000ms exceeded''])"
  by (simp add: geocodeLocation_def geocoders_def geocodeWithGoogleMaps_def geocodeWithMapbox_def
      geocodeWithOpenStreetMap_def offline_def)

lemma extracted_offline:
  "extractedLocations offline ''Flood in Springfield, IL'' =
     Inr (JObj [(''locations'', JArr [JStr ''Springfield'']),
                (''primary_location'', JStr ''Springfield''),
                (''confidence'', JStr ''medium''),
                (''method'', JStr ''pattern_matching_fallback'')])"
  by (simp add: extractedLocations_def callGeminiAPI_def try_catch_def extractLocationsFallback_def
      offline_def)

text \<open>
  Claim C1, as the code has it. In the route \<open>coordinates\<close>, when the cache has no
  truthy entry for the key and the chain fails, the answer is the status 500 with
  \<open>Failed to geocode location\<close>, and nothing is written: the table is as the lookup
  left it. In the route \<open>extract-and-geocode\<close>, when the cache has no truthy entry for
  the key, a primary location was extracted and the chain fails on it, the error is
  caught and the answer is the status 200, with the extracted locations and with
  \<open>geocoding\<close> and \<open>coordinates\<close> both \<open>null\<close>.
\<close>

theorem chain_failure_in_routes:
  "(\<not> absent location_name
      \<and> getCachedData env (cache w) (direct_geocode_cacheKey (or_else location_name None))
          = (Inr cached, tbl)
      \<and> \<not> truthy cached
      \<and> fst (geocodeLocation env (JStr (or_else location_name None))) = Inl e
    \<longrightarrow> coordinates env w location_name =
          (Response 500 (JObj [(''error'', JStr ''Failed to geocode location'')]),
           w\<lparr>cache := tbl\<rparr>))
   \<and> (\<not> (absent text \<and> absent description)
      \<and> getCachedData env (cache w) (geocode_cacheKey (or_else text description))
          = (Inr cached', tbl')
      \<and> \<not> truthy cached'
      \<and> extractedLocations env (or_else text description) = Inr extracted
      \<and> get_field extracted ''primary_location'' = Some primary
      \<and> truthy primary
      \<and> fst (geocodeLocation env primary) = Inl e'
    \<longrightarrow> fst (extract_and_geocode env w text description) =
          Response 200
            (JObj [(''input_text'', JStr (or_else text description)),
                   (''extracted_locations'', extracted),
                   (''geocoding'', JNull),
                   (''coordinates'', JNull),
                   (''timestamp'', JStr (toISOString env (now env)))]))"
proof (intro conjI impI)
  assume "\<not> absent location_name
      \<and> getCachedData env (cache w) (direct_geocode_cacheKey (or_else location_name None))
          = (Inr cached, tbl)
      \<and> \<not> truthy cached
      \<and> fst (geocodeLocation env (JStr (or_else location_name None))) = Inl e"
  then show "coordinates env w location_name =
          (Response 500 (JObj [(''error'', JStr ''Failed to geocode location'')]),
           w\<lparr>cache := tbl\<rparr>)"
    by (simp add: coordinates_def coordinates_try_def Let_def)
next
  assume a: "\<not> (absent text \<and> absent description)
      \<and> getCachedData env (cache w) (geocode_cacheKey (or_else text description))
          = (Inr cached', tbl')
      \<and> \<not> truthy cached'
      \<and> extractedLocations env (or_else text description) = Inr extracted
      \<and> get_field extracted ''primary_location'' = Some primary
      \<and> truthy primary
      \<and> fst (geocodeLocation env primary) = Inl e'"
  then have geo: "geocodingResult env extracted = JNull"
    by (simp add: geocodingResult_def)
  obtain t where "setCachedData env tbl' (geocode_cacheKey (or_else text description))
      (JObj [(''input_text'', JStr (or_else text description)),
                   (''extracted_locations'', extracted),
                   (''geocoding'', JNull),
                   (''coordinates'', JNull),
                   (''timestamp'', JStr (toISOString env (now env)))]) 3600 = (Inr (), t)"
    using setCachedData_returns by blast
  with a geo show "fst (extract_and_geocode env w text description) =
          Response 200
            (JObj [(''input_text'', JStr (or_else text description)),
                   (''extracted_locations'', extracted),
                   (''geocoding'', JNull),
                   (''coordinates'', JNull),
                   (''timestamp'', JStr (toISOString env (now env)))])"
    by (simp add: extract_and_geocode_def extract_and_geocode_try_def Let_def coordinates_of_def)
qed

theorem chain_failure_in_routes_witness:
  "coordinates offline empty_world (Some ''Springfield'') =
     (Response 500 (JObj [(''error'', JStr ''Failed to geocode location'')]), empty_world)
   \<and> fst (extract_and_geocode offline empty_world (Some ''Flood in Springfield, IL'') None) =
     Response 200
       (JObj [(''input_text'', JStr ''Flood in Springfield, IL''),
              (''extracted_locations'',
                 JObj [(''locations'', JArr [JStr ''Springfield'']),
                       (''primary_location'', JStr ''Springfield''),
                       (''confidence'', JStr ''medium''),
                       (''method'', JStr ''pattern_matching_fallback'')]),
              (''geocoding'', JNull),
              (''coordinates'', JNull),
              (''timestamp'', JStr ''1970-01-01T00:00:00.000Z'')])"
proof -
  have get: "getCachedData offline [] k = (Inr JNull, [])" for k
    by (simp add: getCachedData_def getCachedData_try_def db_select_single_def offline_def)
  have misc: "now offline = 0" "toISOString offline 0 = ''1970-01-01T00:00:00.000Z''"
    by (simp_all add: offline_def)
  show ?thesis
    using chain_failure_in_routes [of "Some ''Springfield''" offline empty_world JNull "[]"
        "Error ''All geocoding services failed''" "Some ''Flood in Springfield, IL''" None JNull
        "[]"
        "JObj [(''locations'', JArr [JStr ''Springfield'']),
                       (''primary_location'', JStr ''Springfield''),
                       (''confidence'', JStr ''medium''),
                       (''method'', JStr ''pattern_matching_fallback'')]"
        "JStr ''Springfield''" "Error ''All geocoding services failed''"]
    by (simp add: absent_def or_else_def empty_world_def get geocode_offline extracted_offline misc)
qed

text \<open>
  With no key configured and no network, on the text \<open>Flood in Springfield, IL\<close>: the
  fallback extraction finds \<open>Springfield\<close>, the chain fails on it, and
  \<open>extract-and-geocode\<close> answers 200 and stores its result, in which \<open>geocoding\<close> is
  \<open>null\<close>, under the key of the text for an hour.
\<close>

theorem extract_and_geocode_caches_failure_counterexample:
  "fst (geocodeLocation offline (JStr ''Springfield''))
     = Inl (Error ''All geocoding services failed'')
   \<and> fst (extract_and_geocode offline empty_world (Some ''Flood in Springfield, IL'') None) =
     Response 200
        (JObj [(''input_text'', JStr ''Flood in Springfield, IL''),
               (''extracted_locations'',
                  JObj [(''locations'', JArr [JStr ''Springfield'']),
                        (''primary_location'', JStr ''Springfield''),
                        (''confidence'', JStr ''medium''),
                        (''method'', JStr ''pattern_matching_fallback'')]),
               (''geocoding'', JNull),
               (''coordinates'', JNull),
               (''timestamp'', JStr ''1970-01-01T00:00:00.000Z'')])
   \<and> map row_key
         (cache (snd (extract_and_geocode offline empty_world
                        (Some ''Flood in Springfield, IL'') None)))
       = [geocode_cacheKey ''Flood in Springfield, IL'']
   \<and> map row_expires_at
         (cache (snd (extract_and_geocode offline empty_world
                        (Some ''Flood in Springfield, IL'') None)))
       = [3600000]
   \<and> map (\<lambda>r. get_field (row_value r) ''geocoding'')
         (cache (snd (extract_and_geocode offline empty_world
                        (Some ''Flood in Springfield, IL'') None)))
       = [Some JNull]
   \<and> map (\<lambda>r. get_field (row_value r) ''input_text'')
         (cache (snd (extract_and_geocode offline empty_world
                        (Some ''Flood in Springfield, IL'') None)))
       = [Some (JStr ''Flood in Springfield, IL'')]"
proof -
  have get: "getCachedData offline [] k = (Inr JNull, [])" for k
    by (simp add: getCachedData_def getCachedData_try_def db_select_single_def offline_def)
  have set: "v \<noteq> JNull \<Longrightarrow> setCachedData offline [] k v 3600 =
      (Inr (), [\<lparr>row_id = 1, row_key = k, row_value = jsonb v, row_expires_at = 3600000\<rparr>])"
    for k v
    by (simp add: setCachedData_def setCachedData_try_def db_upsert_def fresh_id_def offline_def
        valid_date_def Let_def)
  have geo: "geocodingResult offline
       (JObj [(''locations'', JArr [JStr ''Springfield'']),
              (''primary_location'', JStr ''Springfield''),
              (''confidence'', JStr ''medium''),
              (''method'', JStr ''pattern_matching_fallback'')]) = JNull"
    by (simp add: geocodingResult_def geocode_offline)
  have misc: "now offline = 0" "toISOString offline 0 = ''1970-01-01T00:00:00.000Z''"
    by (simp_all add: offline_def)
  have run: "extract_and_geocode offline empty_world (Some ''Flood in Springfield, IL'') None =
     (Response 200
        (JObj [(''input_text'', JStr ''Flood in Springfield, IL''),
               (''extracted_locations'',
                  JObj [(''locations'', JArr [JStr ''Springfield'']),
                        (''primary_location'', JStr ''Springfield''),
                        (''confidence'', JStr ''medium''),
                        (''method'', JStr ''pattern_matching_fallback'')]),
               (''geocoding'', JNull),
               (''coordinates'', JNull),
               (''timestamp'', JStr ''1970-01-01T00:00:00.000Z'')]),
      \<lparr>cache =
         [\<lparr>row_id = 1, row_key = geocode_cacheKey ''Flood in Springfield, IL'',
           row_value =
             jsonb (JObj [(''input_text'', JStr ''Flood in Springfield, IL''),
                   (''extracted_locations'',
                      JObj [(''locations'', JArr [JStr ''Springfield'']),
                            (''primary_location'', JStr ''Springfield''),
                            (''confidence'', JStr ''medium''),
                            (''method'', JStr ''pattern_matching_fallback'')]),
                   (''geocoding'', JNull),
                   (''coordinates'', JNull),
                   (''timestamp'', JStr ''1970-01-01T00:00:00.000Z'')]),
           row_expires_at = 3600000\<rparr>],
       reports = []\<rparr>)"
    by (simp add: extract_and_geocode_def extract_and_geocode_try_def absent_def
        or_else_def empty_world_def get set geo extracted_offline coordinates_of_def misc
        Let_def del: jsonb.simps)
  show ?thesis
    unfolding run
    by (simp add: geocode_offline jsonb_object_def key_before_def)
qed

text \<open>The row as the column stores it.\<close>

lemma jsonb_example:
  "jsonb (JObj [(''input_text'', JStr ''Flood in Springfield, IL''),
                (''extracted_locations'',
                   JObj [(''locations'', JArr [JStr ''Springfield'']),
                         (''primary_location'', JStr ''Springfield''),
                         (''confidence'', JStr ''medium''),
                         (''method'', JStr ''pattern_matching_fallback'')]),
                (''geocoding'', JNull),
                (''coordinates'', JNull),
                (''timestamp'', JStr ''1970-01-01T00:00:00.000Z'')])
   = JObj [(''geocoding'', JNull),
           (''timestamp'', JStr ''1970-01-01T00:00:00.000Z''),
           (''input_text'', JStr ''Flood in Springfield, IL''),
           (''coordinates'', JNull),
           (''extracted_locations'',
              JObj [(''method'', JStr ''pattern_matching_fallback''),
                    (''locations'', JArr [JStr ''Springfield'']),
                    (''confidence'', JStr ''medium''),
                    (''primary_location'', JStr ''Springfield'')])]"
  by (simp add: jsonb_object_def key_before_def)

section \<open>The verification route: its result and the status of the report\<close>

lemma try_catch_returns:
  "(\<And>e. \<exists>v. handler e = Inr v) \<Longrightarrow> \<exists>v. try_catch body handler = Inr v"
  by (cases body) (simp_all add: try_catch_def)

lemma call_offline:
  "callGeminiAPI offline p i = Inl (Error ''Google Gemini API key not configured'')"
  by (simp add: callGeminiAPI_def offline_def)

lemma call_chatty: "callGeminiAPI chatty p i = Inr ''The image looks authentic.''"
  by (simp add: callGeminiAPI_def chatty_def offline_def try_catch_def)

lemma fallback_offline:
  "generateFallbackVerification offline =
     JObj [(''authenticity_score'', JNum 80),
           (''confidence_level'', JStr ''high''),
           (''analysis_notes'',
              JStr ''Automated analysis completed. Manual review recommended for critical decisions.''),
           (''disaster_type'', JStr ''unspecified''),
           (''flags'', JArr []),
           (''method'', JStr ''fallback_analysis'')]"
  by (simp add: generateFallbackVerification_def offline_def Let_def)

lemma verificationResult_returns: "\<exists>v. verificationResult env url = Inr v"
  unfolding verificationResult_def by (rule try_catch_returns) simp

text \<open>The route itself answers with the status 200 whenever an image URL is given.\<close>

lemma verify_image_answers:
  assumes "url \<noteq> []"
  shows "\<exists>body. fst (verify_image env w disasterId (Some url) rid) = Response 200 body"
proof -
  obtain cached tbl where
    get: "getCachedData env (cache w) (image_verification_cacheKey url) = (Inr cached, tbl)"
    using getCachedData_returns by blast
  obtain v where v: "verificationResult env url = Inr v"
    using verificationResult_returns by blast
  obtain t where written:
    "setCachedData env tbl (image_verification_cacheKey url) res 3600 = (Inr (), t res)" for res
    using setCachedData_returns by metis
  from assms get v written show ?thesis
    by (cases "truthy cached")
      (simp_all add: verify_image_def verify_image_try_def absent_def or_else_def Let_def
        split: prod.splits)
qed

text \<open>
  Claim C6, as the code has it. The computation of \<open>verificationResult\<close> never throws.
  When the call of Gemini throws (no key configured, or the request fails), and when
  its answer holds braces that \<open>JSON.parse\<close> rejects, the result is the fallback
  analysis, with the fields \<open>authenticity_score\<close>, \<open>confidence_level\<close>,
  \<open>analysis_notes\<close>, \<open>disaster_type\<close>, \<open>flags\<close> and \<open>method\<close>. When the answer holds no
  braces, the result is a fixed object with the first five of these fields and no
  \<open>method\<close>. When the answer holds a JSON object, the result is that object as it is,
  whatever its fields.
\<close>

theorem verificationResult_never_throws:
  "(\<exists>v. verificationResult env url = Inr v)
   \<and> (callGeminiAPI env (verificationPrompt url) (Some url) = Inl e
      \<longrightarrow> verificationResult env url = Inr (generateFallbackVerification env))
   \<and> (callGeminiAPI env (verificationPrompt url) (Some url) = Inr g \<and> json_match g = Some m
        \<and> JSON_parse env m = None
      \<longrightarrow> verificationResult env url = Inr (generateFallbackVerification env))
   \<and> (callGeminiAPI env (verificationPrompt url) (Some url) = Inr g \<and> json_match g = Some m
        \<and> JSON_parse env m = Some parsed
      \<longrightarrow> verificationResult env url = Inr parsed)
   \<and> (callGeminiAPI env (verificationPrompt url) (Some url) = Inr g \<and> json_match g = None
      \<longrightarrow> map_sum id object_keys (verificationResult env url) =
            Inr [''authenticity_score'', ''confidence_level'', ''analysis_notes'',
                 ''disaster_type'', ''flags''])
   \<and> object_keys (generateFallbackVerification env) =
        [''authenticity_score'', ''confidence_level'', ''analysis_notes'', ''disaster_type'',
         ''flags'', ''method'']
   \<and> (callGeminiAPI env (verificationPrompt url) (Some url) = Inr g \<and> json_match g = None
      \<longrightarrow> verificationResult env url =
            Inr (JObj [(''authenticity_score'', JNum 75),
                       (''confidence_level'', JStr ''medium''),
                       (''analysis_notes'',
                          JStr ''Image appears to show legitimate disaster conditions based on visual analysis.''),
                       (''disaster_type'', JStr ''general_emergency''),
                       (''flags'', JArr [])]))"
proof -
  have "\<exists>v. verificationResult env url = Inr v"
    unfolding verificationResult_def by (rule try_catch_returns) simp
  moreover have "object_keys (generateFallbackVerification env) =
        [''authenticity_score'', ''confidence_level'', ''analysis_notes'', ''disaster_type'',
         ''flags'', ''method'']"
    by (simp add: generateFallbackVerification_def Let_def)
  ultimately show ?thesis
    by (simp add: verificationResult_def parseGeminiVerificationResponse_def try_catch_def)
qed

theorem verificationResult_never_throws_witness:
  "callGeminiAPI offline (verificationPrompt ''http://x/y.png'') (Some ''http://x/y.png'')
     = Inl (Error ''Google Gemini API key not configured'')
   \<and> verificationResult offline ''http://x/y.png'' = Inr (generateFallbackVerification offline)
   \<and> callGeminiAPI chatty (verificationPrompt ''http://x/y.png'') (Some ''http://x/y.png'')
     = Inr ''The image looks authentic.''
   \<and> json_match ''The image looks authentic.'' = None
   \<and> map_sum id object_keys (verificationResult chatty ''http://x/y.png'') =
       Inr [''authenticity_score'', ''confidence_level'', ''analysis_notes'',
            ''disaster_type'', ''flags'']"
  using verificationResult_never_throws [of offline "''http://x/y.png''"
      "Error ''Google Gemini API key not configured''" "''''" "''''" JNull]
    verificationResult_never_throws [of chatty "''http://x/y.png''"
      "Error ''''" "''The image looks authentic.''" "''''" JNull]
  by (simp add: call_offline call_chatty json_match_def)

lemma scoring_answers:
  "callGeminiAPI scoring p i = Inr scored_answer"
  "json_match scored_answer = Some scored_json"
  "JSON_parse scoring scored_json = Some (JObj [(''authenticity_score'', JNum 55)])"
  by (simp_all add: callGeminiAPI_def scoring_def offline_def try_catch_def scored_answer_def
      scored_json_def json_match_def)

lemma verification_scoring:
  "verificationResult scoring url = Inr (JObj [(''authenticity_score'', JNum 55)])"
  by (simp add: verificationResult_def parseGeminiVerificationResponse_def try_catch_def
      scoring_answers)

text \<open>The fallback analysis has the field \<open>method\<close>; the result for an answer of Gemini
  without braces has not; the result for an answer that holds the object
  \<open>{"authenticity_score": 55}\<close> has the field of that object and no other.\<close>

theorem verificationResult_shape_counterexample:
  "map_sum id object_keys (verificationResult offline ''http://x/y.png'') =
     Inr [''authenticity_score'', ''confidence_level'', ''analysis_notes'', ''disaster_type'',
          ''flags'', ''method'']
   \<and> map_sum id object_keys (verificationResult chatty ''http://x/y.png'') =
     Inr [''authenticity_score'', ''confidence_level'', ''analysis_notes'', ''disaster_type'',
          ''flags'']
   \<and> map_sum id object_keys (verificationResult scoring ''http://x/y.png'') =
     Inr [''authenticity_score'']"
proof -
  have "verificationResult offline ''http://x/y.png'' = Inr (generateFallbackVerification offline)"
    by (simp add: verificationResult_def try_catch_def call_offline)
  moreover have "map_sum id object_keys (verificationResult chatty ''http://x/y.png'') =
     Inr [''authenticity_score'', ''confidence_level'', ''analysis_notes'', ''disaster_type'',
          ''flags'']"
    by (simp add: verificationResult_def parseGeminiVerificationResponse_def try_catch_def
        call_chatty json_match_def)
  ultimately show ?thesis
    by (simp add: fallback_offline verification_scoring)
qed








end
